theory Spec2Isabelle
  imports
    Main
    "HOL-Library.Word"
    "HOL-Library.Finite_Map"
    "HOL-Library.Char_ord"
    "HOL-Library.List_Lexorder"
begin

unbundle bit_operations_syntax

section \<open>Common types: bytes, Go errors, panics\<close>

type_synonym byte = "8 word"

text \<open>
  A Go \<^verbatim>\<open>error\<close> value.  \<open>Errorf m\<close> is \<^verbatim>\<open>fmt.Errorf(m)\<close>, \<open>Wrap m e\<close> is
  \<^verbatim>\<open>fmt.Errorf(m + ": %w", e)\<close>; the other constructors are the errors of the
  standard library that the program passes on.  A function of the program that returns
  \<^verbatim>\<open>error\<close> returns \<open>error option\<close> here, \<open>None\<close> being \<^verbatim>\<open>nil\<close>.
\<close>

datatype error =
    EOF
  | ErrUnexpectedEOF
  | ErrNotExist
  | ErrExist
  | ErrNotDir
  | ErrIsDir
  | ErrNotEmpty
  | ErrClosed
  | ErrIO
  | ErrNegativeOffset
  | ErrRandom
  | KeySizeError nat
  | InvalidKeySize nat nat
  | SyntaxError
  | UnmarshalTypeError string
  | MarshalerError
  | Errorf string
  | Wrap string error

text \<open>A run-time panic of the Go program: the call does not return.\<close>

datatype panic = SliceBoundsOutOfRange | CloseOfClosedChannel

datatype 'a outcome = Returns 'a | Panics panic

section \<open>Package crypto\<close>

definition KeySize :: nat where "KeySize = 32"
definition IVSize :: nat where "IVSize = 16"
definition ChunkSize :: nat where "ChunkSize = 1024 * 64"

subsection \<open>Readers and writers\<close>

text \<open>
  An \<^verbatim>\<open>io.Reader\<close> over bytes held by the reader (\<^verbatim>\<open>bytes.Reader\<close>, \<^verbatim>\<open>bytes.Buffer\<close>,
  \<^verbatim>\<open>strings.Reader\<close>, a regular \<^verbatim>\<open>os.File\<close>): a read of a buffer of \<open>n\<close> bytes
  returns the next \<open>min n\<close> unread bytes, and at the end of the data \<^verbatim>\<open>(0, io.EOF)\<close>, or
  an I/O error when the reader is faulty.
\<close>

record reader =
  unread :: "byte list"
  faulty :: bool

datatype read_result = ReadBytes "byte list" | ReadError error

definition Read :: "reader \<Rightarrow> nat \<Rightarrow> read_result \<times> reader" where
  "Read r n =
     (if unread r = [] then (ReadError (if faulty r then ErrIO else EOF), r)
      else (ReadBytes (take n (unread r)), r\<lparr>unread := drop n (unread r)\<rparr>))"

definition NewReader :: "byte list \<Rightarrow> reader" where
  "NewReader bs = \<lparr>unread = bs, faulty = False\<rparr>"

text \<open>\<^verbatim>\<open>io.ReadFull(r, buf)\<close> with \<open>len(buf) = n\<close>.\<close>

definition ReadFull :: "reader \<Rightarrow> nat \<Rightarrow> (error + byte list) \<times> reader" where
  "ReadFull r n =
     (if n \<le> length (unread r) then (Inr (take n (unread r)), r\<lparr>unread := drop n (unread r)\<rparr>)
      else (Inl (if faulty r then ErrIO else if unread r = [] then EOF else ErrUnexpectedEOF),
            r\<lparr>unread := []\<rparr>))"

text \<open>An \<^verbatim>\<open>io.Writer\<close> that appends to a buffer, or fails every write when broken.\<close>

record writer =
  written :: "byte list"
  broken :: bool

definition Write :: "writer \<Rightarrow> byte list \<Rightarrow> error option \<times> writer" where
  "Write w bs = (if broken w then (Some ErrIO, w) else (None, w\<lparr>written := written w @ bs\<rparr>))"

definition NewBuffer :: writer where
  "NewBuffer = \<lparr>written = [], broken = False\<rparr>"

subsection \<open>Random source, AES and counter mode\<close>

text \<open>
  \<^verbatim>\<open>crypto/rand\<close>: the operating system's source either fails or fills the buffer; the
  bytes it delivers are \<open>rng_bytes\<close>.
\<close>

datatype rng = Rng (rng_ok: bool) (rng_bytes: "nat \<Rightarrow> byte")

definition rand_Read :: "rng \<Rightarrow> nat \<Rightarrow> error + byte list" where
  "rand_Read g n = (if rng_ok g then Inr (map (rng_bytes g) [0..<n]) else Inl ErrRandom)"

definition GenerateKey :: "rng \<Rightarrow> error + byte list" where
  "GenerateKey g =
     (case rand_Read g KeySize of
        Inl e \<Rightarrow> Inl (Wrap ''failed to generate key'' e)
      | Inr key \<Rightarrow> Inr key)"

definition GenerateIV :: "rng \<Rightarrow> error + byte list" where
  "GenerateIV g =
     (case rand_Read g IVSize of
        Inl e \<Rightarrow> Inl (Wrap ''failed to generate IV'' e)
      | Inr iv \<Rightarrow> Inr iv)"

text \<open>
  The AES block function is a parameter \<open>E\<close> of the model: \<open>E key\<close> maps a 128-bit block
  to a 128-bit block.  \<^verbatim>\<open>aes.NewCipher\<close> accepts keys of 16, 24 and 32 bytes.
\<close>

type_synonym block = "128 word"
type_synonym aes = "byte list \<Rightarrow> block \<Rightarrow> block"

definition aes_NewCipher :: "aes \<Rightarrow> byte list \<Rightarrow> error + (block \<Rightarrow> block)" where
  "aes_NewCipher E key =
     (if length key = 16 \<or> length key = 24 \<or> length key = 32 then Inr (E key)
      else Inl (KeySizeError (length key)))"

definition block_of_bytes :: "byte list \<Rightarrow> block" where
  "block_of_bytes bs = foldl (\<lambda>acc b. push_bit 8 acc OR ucast b) 0 bs"

definition bytes_of_block :: "block \<Rightarrow> byte list" where
  "bytes_of_block w = map (\<lambda>i. ucast (drop_bit (8 * (15 - i)) w)) [0..<16]"

text \<open>
  \<^verbatim>\<open>cipher.NewCTR(block, iv)\<close>: the counter starts at the IV read as a big-endian number
  and is incremented by one per block; \<open>used\<close> counts the key-stream bytes consumed so far.
\<close>

record ctr =
  encrypt_block :: "block \<Rightarrow> block"
  counter0 :: block
  used :: nat

definition NewCTR :: "(block \<Rightarrow> block) \<Rightarrow> byte list \<Rightarrow> ctr" where
  "NewCTR f iv = \<lparr>encrypt_block = f, counter0 = block_of_bytes iv, used = 0\<rparr>"

definition keystream_byte :: "ctr \<Rightarrow> nat \<Rightarrow> byte" where
  "keystream_byte s p =
     bytes_of_block (encrypt_block s (counter0 s + of_nat (p div 16))) ! (p mod 16)"

definition XORKeyStream :: "ctr \<Rightarrow> byte list \<Rightarrow> byte list \<times> ctr" where
  "XORKeyStream s src =
     (map (\<lambda>(b, p). b XOR keystream_byte s p) (zip src [used s..<used s + length src]),
      s\<lparr>used := used s + length src\<rparr>)"

subsection \<open>EncryptStream and DecryptStream\<close>

text \<open>
  The chunk loop of both functions: read up to \<open>ChunkSize\<close> bytes, stop on \<^verbatim>\<open>io.EOF\<close>,
  fail on another read error, XOR the chunk with the key stream and write it.  The two
  loops of the source differ in the messages of their errors only, which are \<open>rmsg\<close> and
  \<open>wmsg\<close>.
\<close>

function stream_loop ::
  "string \<Rightarrow> string \<Rightarrow> ctr \<Rightarrow> reader \<Rightarrow> writer \<Rightarrow> error option \<times> reader \<times> writer" where
  "stream_loop rmsg wmsg s r w =
     (case Read r ChunkSize of
        (ReadError e, r') \<Rightarrow>
          (if e = EOF then (None, r', w) else (Some (Wrap rmsg e), r', w))
      | (ReadBytes buf, r') \<Rightarrow>
          (case XORKeyStream s buf of
             (out, s') \<Rightarrow>
               (case Write w out of
                  (Some e, w') \<Rightarrow> (Some (Wrap wmsg e), r', w')
                | (None, w') \<Rightarrow> stream_loop rmsg wmsg s' r' w')))"
  by pat_completeness auto
termination
  by (relation "measure (\<lambda>(rmsg, wmsg, s, r, w). length (unread r))")
     (auto simp: Read_def ChunkSize_def split: if_splits)

declare stream_loop.simps [simp del]

definition EncryptStream ::
  "aes \<Rightarrow> rng \<Rightarrow> byte list \<Rightarrow> reader \<Rightarrow> writer \<Rightarrow> error option \<times> reader \<times> writer" where
  "EncryptStream E g key r w =
     (if length key \<noteq> KeySize then (Some (InvalidKeySize KeySize (length key)), r, w)
      else
        (case aes_NewCipher E key of
           Inl e \<Rightarrow> (Some (Wrap ''failed to create cipher'' e), r, w)
         | Inr blk \<Rightarrow>
             (case GenerateIV g of
                Inl e \<Rightarrow> (Some e, r, w)
              | Inr iv \<Rightarrow>
                  (case Write w iv of
                     (Some e, w') \<Rightarrow> (Some (Wrap ''failed to write IV'' e), r, w')
                   | (None, w') \<Rightarrow>
                       stream_loop ''failed to read plaintext'' ''failed to write ciphertext''
                         (NewCTR blk iv) r w'))))"

definition DecryptStream ::
  "aes \<Rightarrow> byte list \<Rightarrow> reader \<Rightarrow> writer \<Rightarrow> error option \<times> reader \<times> writer" where
  "DecryptStream E key r w =
     (if length key \<noteq> KeySize then (Some (InvalidKeySize KeySize (length key)), r, w)
      else
        (case aes_NewCipher E key of
           Inl e \<Rightarrow> (Some (Wrap ''failed to create cipher'' e), r, w)
         | Inr blk \<Rightarrow>
             (case ReadFull r IVSize of
                (Inl e, r') \<Rightarrow> (Some (Wrap ''failed to read IV'' e), r', w)
              | (Inr iv, r') \<Rightarrow>
                  stream_loop ''failed to read ciphertext'' ''failed to write plaintext''
                    (NewCTR blk iv) r' w)))"

text \<open>
  The two functions run on in-memory buffers, as the package's tests run them
  (\<^verbatim>\<open>bytes.NewReader\<close> for the input, a \<^verbatim>\<open>bytes.Buffer\<close> for the output): the result
  is the error, or the bytes written.
\<close>

definition encrypt_bytes :: "aes \<Rightarrow> rng \<Rightarrow> byte list \<Rightarrow> byte list \<Rightarrow> error + byte list" where
  "encrypt_bytes E g key plaintext =
     (case EncryptStream E g key (NewReader plaintext) NewBuffer of
        (None, r, w) \<Rightarrow> Inr (written w)
      | (Some e, r, w) \<Rightarrow> Inl e)"

definition decrypt_bytes :: "aes \<Rightarrow> byte list \<Rightarrow> byte list \<Rightarrow> error + byte list" where
  "decrypt_bytes E key ciphertext =
     (case DecryptStream E key (NewReader ciphertext) NewBuffer of
        (None, r, w) \<Rightarrow> Inr (written w)
      | (Some e, r, w) \<Rightarrow> Inl e)"

text \<open>The key stream applied to a byte sequence from stream position \<open>p\<close> on.\<close>

definition xor_from :: "ctr \<Rightarrow> nat \<Rightarrow> byte list \<Rightarrow> byte list" where
  "xor_from s p bs = map (\<lambda>(b, q). b XOR keystream_byte s q) (zip bs [p..<p + length bs])"

section \<open>File paths and the file system\<close>

subsection \<open>Package path/filepath\<close>

text \<open>
  A path is the list of its components; the empty list is \<^verbatim>\<open>"."\<close>.  Paths are relative to
  the working directory of the process, as \<^verbatim>\<open>cmd/main.go\<close> builds them
  (\<^verbatim>\<open>data/<nodeID>/store\<close>), and the separator is \<^verbatim>\<open>/\<close>.
\<close>

type_synonym path = "string list"

text \<open>The components of a path string: the pieces between separators.\<close>

fun split_sep :: "string \<Rightarrow> string list" where
  "split_sep [] = [[]]"
| "split_sep (c # cs) =
     (if c = CHR ''/'' then [] # split_sep cs
      else (case split_sep cs of [] \<Rightarrow> [[c]] | x # xs \<Rightarrow> (c # x) # xs))"

text \<open>
  \<^verbatim>\<open>filepath.Clean\<close>, one component at a time: an empty component and \<^verbatim>\<open>.\<close> are dropped,
  \<^verbatim>\<open>..\<close> removes the component before it, and stays where there is none to remove.
\<close>

definition clean_step :: "path \<Rightarrow> string \<Rightarrow> path" where
  "clean_step acc c =
     (if c = [] \<or> c = ''.'' then acc
      else if c = ''..'' then (if acc = [] \<or> last acc = ''..'' then acc @ [c] else butlast acc)
      else acc @ [c])"

definition Clean :: "path \<Rightarrow> path" where
  "Clean p = foldl clean_step [] p"

text \<open>\<^verbatim>\<open>filepath.Join(dir, elems...)\<close>: the elements joined by separators, then cleaned.\<close>

definition filepath_Join :: "path \<Rightarrow> string list \<Rightarrow> path" where
  "filepath_Join dir elems = Clean (dir @ concat (map split_sep elems))"

definition filepath_Dir :: "path \<Rightarrow> path" where
  "filepath_Dir p = butlast p"

text \<open>
  \<^verbatim>\<open>filepath.Rel(base, targ)\<close> for clean paths: the common prefix is dropped, each
  component left of the base becomes \<^verbatim>\<open>..\<close>; there is no answer when the base would have to
  be left through a \<^verbatim>\<open>..\<close> of its own.
\<close>

fun strip_common :: "path \<Rightarrow> path \<Rightarrow> path \<times> path" where
  "strip_common (b # bs) (t # ts) = (if b = t then strip_common bs ts else (b # bs, t # ts))"
| "strip_common bs ts = (bs, ts)"

definition filepath_Rel :: "path \<Rightarrow> path \<Rightarrow> error + path" where
  "filepath_Rel base targ =
     (case strip_common (Clean base) (Clean targ) of
        (bs, ts) \<Rightarrow>
          (if bs \<noteq> [] \<and> hd bs = ''..'' then Inl (Errorf ''Rel: can't make relative'')
           else Inr (replicate (length bs) ''..'' @ ts)))"

text \<open>The string of a path, with \<^verbatim>\<open>/\<close> between the components.\<close>

fun join_sep :: "string list \<Rightarrow> string" where
  "join_sep [] = []"
| "join_sep [c] = c"
| "join_sep (c # d # cs) = c @ ''/'' @ join_sep (d # cs)"

definition path_string :: "path \<Rightarrow> string" where
  "path_string p = (if p = [] then ''.'' else join_sep p)"

subsection \<open>Package os: files and directories\<close>

text \<open>
  The file system maps a clean path to a regular file with its contents or to a
  directory.  The working directory \<open>[]\<close> is a directory that always exists.
\<close>

datatype entry = File "byte list" | Directory

type_synonym fs = "(path, entry) fmap"

definition entry_at :: "fs \<Rightarrow> path \<Rightarrow> entry option" where
  "entry_at fs p = (if p = [] then Some Directory else fmlookup fs p)"

definition os_Stat :: "fs \<Rightarrow> path \<Rightarrow> error + entry" where
  "os_Stat fs p = (case entry_at fs p of None \<Rightarrow> Inl ErrNotExist | Some e \<Rightarrow> Inr e)"

definition is_dir :: "fs \<Rightarrow> path \<Rightarrow> bool" where
  "is_dir fs p = (os_Stat fs p = Inr Directory)"

text \<open>\<^verbatim>\<open>os.MkdirAll\<close>: every missing directory on the way is created, a file on the way is an error.\<close>

fun mkdir_each :: "fs \<Rightarrow> path list \<Rightarrow> error option \<times> fs" where
  "mkdir_each fs [] = (None, fs)"
| "mkdir_each fs (d # ds) =
     (case os_Stat fs d of
        Inr Directory \<Rightarrow> mkdir_each fs ds
      | Inr (File bs) \<Rightarrow> (Some ErrNotDir, fs)
      | Inl e \<Rightarrow> mkdir_each (fmupd d Directory fs) ds)"

definition os_MkdirAll :: "fs \<Rightarrow> path \<Rightarrow> error option \<times> fs" where
  "os_MkdirAll fs p = mkdir_each fs (map (\<lambda>n. take n p) [1..<Suc (length p)])"

text \<open>
  \<^verbatim>\<open>os.CreateTemp(dir, prefix + "*")\<close>: a new empty file in \<open>dir\<close> whose name is the prefix
  followed by a random string; \<open>rnd\<close> is the random string of the name that is tried.
\<close>

definition os_CreateTemp :: "fs \<Rightarrow> path \<Rightarrow> string \<Rightarrow> string \<Rightarrow> (error + path) \<times> fs" where
  "os_CreateTemp fs dir pre rnd =
     (if \<not> is_dir fs dir then (Inl ErrNotExist, fs)
      else if os_Stat fs (dir @ [pre @ rnd]) \<noteq> Inl ErrNotExist then (Inl ErrExist, fs)
      else (Inr (dir @ [pre @ rnd]), fmupd (dir @ [pre @ rnd]) (File []) fs))"

text \<open>\<^verbatim>\<open>os.Open\<close>: a reader of the file from its start; reading a directory fails.\<close>

definition os_Open :: "fs \<Rightarrow> path \<Rightarrow> error + reader" where
  "os_Open fs p =
     (case os_Stat fs p of
        Inl e \<Rightarrow> Inl e
      | Inr (File bs) \<Rightarrow> Inr \<lparr>unread = bs, faulty = False\<rparr>
      | Inr Directory \<Rightarrow> Inr \<lparr>unread = [], faulty = True\<rparr>)"

text \<open>
  \<^verbatim>\<open>io.Copy(file, r)\<close> into the open file at \<open>p\<close>: the bytes the reader delivers are
  appended; the copy fails when the reader does.
\<close>

definition io_Copy :: "fs \<Rightarrow> path \<Rightarrow> reader \<Rightarrow> error option \<times> fs" where
  "io_Copy fs p r =
     (case entry_at fs p of
        Some (File bs) \<Rightarrow>
          (if faulty r then Some ErrIO else None, fmupd p (File (bs @ unread r)) fs)
      | _ \<Rightarrow> (Some ErrClosed, fs))"

text \<open>
  \<^verbatim>\<open>os.Rename\<close> of a regular file: the target's directory must exist, a directory cannot
  be replaced, a file is.
\<close>

definition os_Rename :: "fs \<Rightarrow> path \<Rightarrow> path \<Rightarrow> error option \<times> fs" where
  "os_Rename fs old new =
     (case entry_at fs old of
        Some (File bs) \<Rightarrow>
          (if \<not> is_dir fs (filepath_Dir new) then (Some ErrNotExist, fs)
           else if is_dir fs new then (Some ErrIsDir, fs)
           else (None, fmupd new (File bs) (fmdrop old fs)))
      | _ \<Rightarrow> (Some ErrNotExist, fs))"

text \<open>\<^verbatim>\<open>os.Remove\<close>: a file, or a directory that has no entries.\<close>

definition has_entries :: "fs \<Rightarrow> path \<Rightarrow> bool" where
  "has_entries fs p = (ffilter (\<lambda>q. q \<noteq> [] \<and> butlast q = p) (fmdom fs) \<noteq> {||})"

definition os_Remove :: "fs \<Rightarrow> path \<Rightarrow> error option \<times> fs" where
  "os_Remove fs p =
     (case entry_at fs p of
        None \<Rightarrow> (Some ErrNotExist, fs)
      | Some (File bs) \<Rightarrow> (None, fmdrop p fs)
      | Some Directory \<Rightarrow>
          (if p = [] \<or> has_entries fs p then (Some ErrNotEmpty, fs) else (None, fmdrop p fs)))"

text \<open>
  \<^verbatim>\<open>filepath.Walk\<close>: the root, then everything below it, in lexical order of the
  components.
\<close>

definition below :: "fs \<Rightarrow> path \<Rightarrow> path list" where
  "below fs root =
     sorted_list_of_fset
       (ffilter (\<lambda>q. length root < length q \<and> take (length root) q = root) (fmdom fs))"

definition filepath_Walk :: "fs \<Rightarrow> path \<Rightarrow> error + (path \<times> entry) list" where
  "filepath_Walk fs root =
     (case os_Stat fs root of
        Inl e \<Rightarrow> Inl e
      | Inr (File bs) \<Rightarrow> Inr [(root, File bs)]
      | Inr Directory \<Rightarrow>
          Inr ((root, Directory) #
               concat (map (\<lambda>q. case fmlookup fs q of None \<Rightarrow> [] | Some e \<Rightarrow> [(q, e)])
                         (below fs root))))"

section \<open>Package storage\<close>

record store =
  baseDir :: path
  tempDir :: path

definition NewStore :: "path \<Rightarrow> fs \<Rightarrow> (error + store) \<times> fs" where
  "NewStore base fs =
     (case os_MkdirAll fs base of
        (Some e, fs1) \<Rightarrow> (Inl e, fs1)
      | (None, fs1) \<Rightarrow>
          (case os_MkdirAll fs1 (filepath_Join base [''temp'']) of
             (Some e, fs2) \<Rightarrow> (Inl e, fs2)
           | (None, fs2) \<Rightarrow>
               (Inr \<lparr>baseDir = base, tempDir = filepath_Join base [''temp'']\<rparr>, fs2)))"

text \<open>
  \<open>hashToPath\<close>: the slices \<^verbatim>\<open>contentHash[0:2]\<close>, \<^verbatim>\<open>contentHash[2:4]\<close> and
  \<^verbatim>\<open>contentHash[4:]\<close> panic when the string has fewer than four bytes.
\<close>

definition hashToPath :: "store \<Rightarrow> string \<Rightarrow> path outcome" where
  "hashToPath s contentHash =
     (if length contentHash < 4 then Panics SliceBoundsOutOfRange
      else Returns (filepath_Join (baseDir s)
                      [take 2 contentHash, take 2 (drop 2 contentHash), drop 4 contentHash]))"

text \<open>
  \<open>Store\<close>.  The deferred \<^verbatim>\<open>os.Remove(tempPath)\<close> runs on every way out once the temporary
  file exists, also on a panic; its own error is dropped.
\<close>

definition Store :: "store \<Rightarrow> string \<Rightarrow> reader \<Rightarrow> string \<Rightarrow> fs \<Rightarrow> error option outcome \<times> fs" where
  "Store s contentHash r rnd fs =
     (case os_CreateTemp fs (tempDir s) ''store-'' rnd of
        (Inl e, fs1) \<Rightarrow> (Returns (Some (Wrap ''failed to create temp file'' e)), fs1)
      | (Inr tempPath, fs1) \<Rightarrow>
          (case io_Copy fs1 tempPath r of
             (Some e, fs2) \<Rightarrow>
               (Returns (Some (Wrap ''failed to write content'' e)), snd (os_Remove fs2 tempPath))
           | (None, fs2) \<Rightarrow>
               (case hashToPath s contentHash of
                  Panics pn \<Rightarrow> (Panics pn, snd (os_Remove fs2 tempPath))
                | Returns hashPath \<Rightarrow>
                    (case os_MkdirAll fs2 (filepath_Dir hashPath) of
                       (Some e, fs3) \<Rightarrow>
                         (Returns (Some (Wrap ''failed to create hash directory'' e)),
                          snd (os_Remove fs3 tempPath))
                     | (None, fs3) \<Rightarrow>
                         (case os_Rename fs3 tempPath hashPath of
                            (Some e, fs4) \<Rightarrow>
                              (Returns (Some (Wrap ''failed to move file to final location'' e)),
                               snd (os_Remove fs4 tempPath))
                          | (None, fs4) \<Rightarrow> (Returns None, snd (os_Remove fs4 tempPath)))))))"

definition Load :: "store \<Rightarrow> string \<Rightarrow> fs \<Rightarrow> (error + reader) outcome" where
  "Load s contentHash fs =
     (case hashToPath s contentHash of
        Panics pn \<Rightarrow> Panics pn
      | Returns hashPath \<Rightarrow>
          (case os_Open fs hashPath of
             Inl e \<Rightarrow> Returns (Inl (Wrap ''failed to open file'' e))
           | Inr file \<Rightarrow> Returns (Inr file)))"

definition Exists :: "store \<Rightarrow> string \<Rightarrow> fs \<Rightarrow> bool outcome" where
  "Exists s contentHash fs =
     (case hashToPath s contentHash of
        Panics pn \<Rightarrow> Panics pn
      | Returns hashPath \<Rightarrow>
          Returns (case os_Stat fs hashPath of Inl e \<Rightarrow> False | Inr info \<Rightarrow> True))"

text \<open>The loop of \<open>Delete\<close> that removes the parent directories that have become empty.\<close>

function remove_empty_parents :: "store \<Rightarrow> path \<Rightarrow> fs \<Rightarrow> fs" where
  "remove_empty_parents s dir fs =
     (if dir = baseDir s then fs
      else (case os_Remove fs dir of
              (Some e, fs') \<Rightarrow> fs'
            | (None, fs') \<Rightarrow> remove_empty_parents s (filepath_Dir dir) fs'))"
  by pat_completeness auto
termination
  by (relation "measure (\<lambda>(s, dir, fs). length dir)")
     (auto simp: os_Remove_def entry_at_def filepath_Dir_def split: if_splits option.splits entry.splits)

declare remove_empty_parents.simps [simp del]

definition Delete :: "store \<Rightarrow> string \<Rightarrow> fs \<Rightarrow> error option outcome \<times> fs" where
  "Delete s contentHash fs =
     (case hashToPath s contentHash of
        Panics pn \<Rightarrow> (Panics pn, fs)
      | Returns hashPath \<Rightarrow>
          (case os_Remove fs hashPath of
             (Some e, fs1) \<Rightarrow> (Returns (Some (Wrap ''failed to delete file'' e)), fs1)
           | (None, fs1) \<Rightarrow>
               (Returns None, remove_empty_parents s (filepath_Dir hashPath) fs1)))"

definition CreateTemp :: "store \<Rightarrow> string \<Rightarrow> fs \<Rightarrow> (error + path) \<times> fs" where
  "CreateTemp s rnd fs = os_CreateTemp fs (tempDir s) ''transfer-'' rnd"

text \<open>
  \<open>List\<close>: the function called on every entry of the walk appends, for a regular file
  whose directory is not the temp directory, the path relative to the base directory.
\<close>

fun list_entries :: "store \<Rightarrow> (path \<times> entry) list \<Rightarrow> string list \<Rightarrow> string list \<times> error option" where
  "list_entries s [] hashes = (hashes, None)"
| "list_entries s ((p, info) # rest) hashes =
     (if info \<noteq> Directory \<and> filepath_Dir p \<noteq> tempDir s then
        (case filepath_Rel (baseDir s) p of
           Inl e \<Rightarrow> (hashes, Some e)
         | Inr relPath \<Rightarrow>
             list_entries s rest
               (hashes @ [path_string (Clean (filepath_Join (filepath_Dir relPath) [last p]))]))
      else list_entries s rest hashes)"

definition List :: "store \<Rightarrow> fs \<Rightarrow> string list \<times> error option" where
  "List s fs =
     (case filepath_Walk fs (baseDir s) of
        Inl e \<Rightarrow> ([], Some e)
      | Inr entries \<Rightarrow> list_entries s entries [])"







text \<open>An operation that panics does not return.\<close>

definition panics :: "'a outcome \<Rightarrow> bool" where
  "panics x = (case x of Panics pn \<Rightarrow> True | Returns v \<Rightarrow> False)"

section \<open>Package encoding/json as the protocol uses it\<close>

subsection \<open>Base64 (the standard encoding, with padding)\<close>

definition b64_char :: "nat \<Rightarrow> char" where
  "b64_char n =
     (if n < 26 then char_of (65 + n)
      else if n < 52 then char_of (71 + n)
      else if n < 62 then char_of (n - 4)
      else if n = 62 then char_of (43::nat) else char_of (47::nat))"

definition b64_val :: "char \<Rightarrow> nat option" where
  "b64_val c =
     (let k = (of_char c :: nat) in
      if 65 \<le> k \<and> k \<le> 90 then Some (k - 65)
      else if 97 \<le> k \<and> k \<le> 122 then Some (k - 71)
      else if 48 \<le> k \<and> k \<le> 57 then Some (k + 4)
      else if k = 43 then Some 62
      else if k = 47 then Some 63
      else None)"

fun b64_encode :: "byte list \<Rightarrow> string" where
  "b64_encode [] = []"
| "b64_encode [a] =
     [b64_char (unat a div 4), b64_char ((unat a mod 4) * 16), CHR ''='', CHR ''='']"
| "b64_encode [a, b] =
     [b64_char (unat a div 4), b64_char ((unat a mod 4) * 16 + unat b div 16),
      b64_char ((unat b mod 16) * 4), CHR ''='']"
| "b64_encode (a # b # c # rest) =
     [b64_char (unat a div 4), b64_char ((unat a mod 4) * 16 + unat b div 16),
      b64_char ((unat b mod 16) * 4 + unat c div 64), b64_char (unat c mod 64)]
     @ b64_encode rest"

text \<open>
  Decoding takes the characters four at a time; padding is accepted in the last group
  only.  Carriage returns and line feeds are skipped, as \<^verbatim>\<open>encoding/base64\<close> does.
\<close>

fun b64_groups :: "string \<Rightarrow> byte list option" where
  "b64_groups [] = Some []"
| "b64_groups [c1, c2, c3, c4] =
     (case (b64_val c1, b64_val c2) of
        (Some v1, Some v2) \<Rightarrow>
          (if c3 = CHR ''='' \<and> c4 = CHR ''='' then Some [of_nat (v1 * 4 + v2 div 16)]
           else
             (case b64_val c3 of
                None \<Rightarrow> None
              | Some v3 \<Rightarrow>
                  (if c4 = CHR ''='' then
                     Some [of_nat (v1 * 4 + v2 div 16), of_nat ((v2 mod 16) * 16 + v3 div 4)]
                   else
                     (case b64_val c4 of
                        None \<Rightarrow> None
                      | Some v4 \<Rightarrow>
                          Some [of_nat (v1 * 4 + v2 div 16), of_nat ((v2 mod 16) * 16 + v3 div 4),
                                of_nat ((v3 mod 4) * 64 + v4)]))))
      | _ \<Rightarrow> None)"
| "b64_groups (c1 # c2 # c3 # c4 # rest) =
     (case (b64_val c1, b64_val c2, b64_val c3, b64_val c4) of
        (Some v1, Some v2, Some v3, Some v4) \<Rightarrow>
          (case b64_groups rest of
             None \<Rightarrow> None
           | Some bs \<Rightarrow>
               Some (of_nat (v1 * 4 + v2 div 16) # of_nat ((v2 mod 16) * 16 + v3 div 4) #
                     of_nat ((v3 mod 4) * 64 + v4) # bs))
      | _ \<Rightarrow> None)"
| "b64_groups cs = None"

definition b64_decode :: "string \<Rightarrow> byte list option" where
  "b64_decode s = b64_groups (filter (\<lambda>c. c \<noteq> CHR 0x0D \<and> c \<noteq> CHR 0x0A) s)"

subsection \<open>Strings: invalid UTF-8 is replaced when a string is encoded\<close>

text \<open>
  \<open>rune_len s\<close> is the number of bytes of the UTF-8 sequence at the head of \<open>s\<close>, or \<open>0\<close>
  when the first byte does not start a valid sequence (\<^verbatim>\<open>utf8.DecodeRuneInString\<close> then
  returns \<^verbatim>\<open>(RuneError, 1)\<close>).
\<close>

definition cont_byte :: "nat \<Rightarrow> nat \<Rightarrow> string \<Rightarrow> nat \<Rightarrow> bool" where
  "cont_byte lo hi s i = (i < length s \<and> lo \<le> (of_char (s ! i) :: nat) \<and> (of_char (s ! i) :: nat) \<le> hi)"

definition rune_len :: "string \<Rightarrow> nat" where
  "rune_len s =
     (case s of
        [] \<Rightarrow> 0
      | c # cs \<Rightarrow>
          (let k = (of_char c :: nat) in
           if k < 0x80 then 1
           else if k < 0xC2 then 0
           else if k < 0xE0 then (if cont_byte 0x80 0xBF s 1 then 2 else 0)
           else if k < 0xF0 then
             (if cont_byte (if k = 0xE0 then 0xA0 else 0x80) (if k = 0xED then 0x9F else 0xBF) s 1
                 \<and> cont_byte 0x80 0xBF s 2 then 3 else 0)
           else if k < 0xF5 then
             (if cont_byte (if k = 0xF0 then 0x90 else 0x80) (if k = 0xF4 then 0x8F else 0xBF) s 1
                 \<and> cont_byte 0x80 0xBF s 2 \<and> cont_byte 0x80 0xBF s 3 then 4 else 0)
           else 0))"

text \<open>
  What \<^verbatim>\<open>json.Marshal\<close> makes of a Go string: every byte that is not part of a valid
  UTF-8 sequence becomes U+FFFD (the bytes EF BF BD).
\<close>

function utf8_coerce :: "string \<Rightarrow> string" where
  "utf8_coerce s =
     (if s = [] then []
      else if rune_len s = 0 then [CHR 0xEF, CHR 0xBF, CHR 0xBD] @ utf8_coerce (tl s)
      else take (rune_len s) s @ utf8_coerce (drop (rune_len s) s))"
  by pat_completeness auto
termination
  by (relation "measure length") auto

declare utf8_coerce.simps [simp del]


subsection \<open>JSON values, and Go values as JSON\<close>

text \<open>
  A JSON text is modelled by the value it denotes.  A number is kept as an integer
  literal (\<open>JInt\<close>) or as any other number literal (\<open>JFloat\<close>, with its text), since
  decoding into a Go integer depends on the literal.  A \<^verbatim>\<open>json.RawMessage\<close> holds the
  bytes of a JSON text, or bytes that are no JSON text.
\<close>

datatype json =
    JNull
  | JBool bool
  | JInt int
  | JFloat string
  | JString string
  | JArray "json list"
  | JObject "(string \<times> json) list"

datatype raw_message = Raw json | NotJSON

text \<open>
  Encoding.  A \<^verbatim>\<open>nil\<close> slice is \<open>None\<close> and is encoded as \<^verbatim>\<open>null\<close>; a \<^verbatim>\<open>[]byte\<close> is encoded
  as the base64 text of its bytes; a string loses its invalid UTF-8.
\<close>

definition json_string :: "string \<Rightarrow> json" where
  "json_string s = JString (utf8_coerce s)"

definition json_bytes :: "byte list option \<Rightarrow> json" where
  "json_bytes b = (case b of None \<Rightarrow> JNull | Some bs \<Rightarrow> JString (b64_encode bs))"

definition json_strings :: "string list option \<Rightarrow> json" where
  "json_strings l = (case l of None \<Rightarrow> JNull | Some xs \<Rightarrow> JArray (map json_string xs))"

definition json_int :: "64 word \<Rightarrow> json" where
  "json_int w = JInt (sint w)"

text \<open>
  Decoding a JSON value into a field that holds \<open>cur\<close>: \<^verbatim>\<open>null\<close> leaves a string, a
  boolean and a number as they are and makes a slice \<^verbatim>\<open>nil\<close>; a value of the wrong kind is
  an error and leaves the field as it is.
\<close>

definition dec_string :: "json \<Rightarrow> string \<Rightarrow> error option \<times> string" where
  "dec_string j cur =
     (case j of
        JString s \<Rightarrow> (None, s)
      | JNull \<Rightarrow> (None, cur)
      | _ \<Rightarrow> (Some (UnmarshalTypeError ''string''), cur))"

definition dec_bool :: "json \<Rightarrow> bool \<Rightarrow> error option \<times> bool" where
  "dec_bool j cur =
     (case j of
        JBool b \<Rightarrow> (None, b)
      | JNull \<Rightarrow> (None, cur)
      | _ \<Rightarrow> (Some (UnmarshalTypeError ''bool''), cur))"

definition dec_int :: "json \<Rightarrow> 64 word \<Rightarrow> error option \<times> 64 word" where
  "dec_int j cur =
     (case j of
        JInt n \<Rightarrow>
          (if - (2 ^ 63) \<le> n \<and> n < 2 ^ 63 then (None, of_int n)
           else (Some (UnmarshalTypeError ''int64''), cur))
      | JNull \<Rightarrow> (None, cur)
      | _ \<Rightarrow> (Some (UnmarshalTypeError ''int64''), cur))"

definition first_error :: "error option \<Rightarrow> error option \<Rightarrow> error option" where
  "first_error a b = (case a of None \<Rightarrow> b | Some e \<Rightarrow> Some e)"

definition dec_uint8 :: "json \<Rightarrow> error option \<times> byte" where
  "dec_uint8 j =
     (case j of
        JInt n \<Rightarrow>
          (if 0 \<le> n \<and> n < 256 then (None, of_int n) else (Some (UnmarshalTypeError ''uint8''), 0))
      | JNull \<Rightarrow> (None, 0)
      | _ \<Rightarrow> (Some (UnmarshalTypeError ''uint8''), 0))"

definition dec_bytes :: "json \<Rightarrow> byte list option \<Rightarrow> error option \<times> byte list option" where
  "dec_bytes j cur =
     (case j of
        JNull \<Rightarrow> (None, None)
      | JString s \<Rightarrow>
          (case b64_decode s of
             Some bs \<Rightarrow> (None, Some bs)
           | None \<Rightarrow> (Some (Errorf ''illegal base64 data''), cur))
      | JArray xs \<Rightarrow>
          (foldl first_error None (map (fst \<circ> dec_uint8) xs), Some (map (snd \<circ> dec_uint8) xs))
      | _ \<Rightarrow> (Some (UnmarshalTypeError ''[]uint8''), cur))"

definition dec_strings :: "json \<Rightarrow> string list option \<Rightarrow> error option \<times> string list option" where
  "dec_strings j cur =
     (case j of
        JNull \<Rightarrow> (None, None)
      | JArray xs \<Rightarrow>
          (foldl first_error None (map (\<lambda>x. fst (dec_string x [])) xs),
           Some (map (\<lambda>x. snd (dec_string x [])) xs))
      | _ \<Rightarrow> (Some (UnmarshalTypeError ''[]string''), cur))"

text \<open>
  A key of an object names the field whose name it equals, letter case aside (ASCII
  letters).
\<close>

definition to_lower :: "char \<Rightarrow> char" where
  "to_lower c =
     (if 65 \<le> (of_char c :: nat) \<and> (of_char c :: nat) \<le> 90 then char_of ((of_char c :: nat) + 32)
      else c)"

definition fold_name :: "string \<Rightarrow> string" where
  "fold_name k = map to_lower k"

text \<open>
  \<^verbatim>\<open>json.Unmarshal(raw, &v)\<close> for a struct \<open>v\<close> that holds \<open>zero\<close>: the members of an object
  are stored one after the other by \<open>setf\<close>, a key that names no field is skipped, and the
  first error is returned once all members have been read.  \<^verbatim>\<open>null\<close> leaves the struct as it
  is; any other value is an error.
\<close>

definition store_member ::
  "(string \<Rightarrow> json \<Rightarrow> 'a \<Rightarrow> error option \<times> 'a) \<Rightarrow> error option \<times> 'a \<Rightarrow> string \<times> json \<Rightarrow> error option \<times> 'a" where
  "store_member setf acc kv =
     (case setf (fold_name (fst kv)) (snd kv) (snd acc) of
        (e, v') \<Rightarrow> (first_error (fst acc) e, v'))"

definition json_Unmarshal ::
  "(string \<Rightarrow> json \<Rightarrow> 'a \<Rightarrow> error option \<times> 'a) \<Rightarrow> 'a \<Rightarrow> raw_message \<Rightarrow> error + 'a" where
  "json_Unmarshal setf zero raw =
     (case raw of
        NotJSON \<Rightarrow> Inl SyntaxError
      | Raw JNull \<Rightarrow> Inr zero
      | Raw (JObject members) \<Rightarrow>
          (case foldl (store_member setf) (None, zero) members of
             (None, v) \<Rightarrow> Inr v
           | (Some e, v) \<Rightarrow> Inl e)
      | Raw _ \<Rightarrow> Inl (UnmarshalTypeError ''struct''))"

section \<open>Package protocol\<close>

definition MessageTypeHandshake :: string where "MessageTypeHandshake = ''handshake''"
definition MessageTypeData :: string where "MessageTypeData = ''data''"
definition MessageTypeDataRequest :: string where "MessageTypeDataRequest = ''data_request''"
definition MessageTypeDataTransfer :: string where "MessageTypeDataTransfer = ''data_transfer''"

record Message =
  Type :: string
  SenderID :: string
  Payload :: raw_message

record HandshakePayload =
  hs_NodeID :: string
  hs_Address :: string
  hs_KnownPeers :: "string list option"
  hs_Key :: "byte list option"

record DataPayload =
  dp_ContentHash :: string
  dp_FileName :: string
  dp_Size :: "64 word"
  dp_Encrypted :: bool
  dp_IV :: "byte list option"
  dp_FromWatch :: bool

record DataRequest =
  rq_ContentHash :: string
  rq_FromWatch :: bool

record DataTransfer =
  dt_ContentHash :: string
  dt_Data :: "byte list option"
  dt_ChunkIndex :: "64 word"
  dt_FinalChunk :: bool
  dt_IV :: "byte list option"
  dt_FromWatch :: bool

record DiscoveryPayload =
  dc_NodeID :: string
  dc_Address :: string

text \<open>The zero values of the five structs.\<close>

definition zero_Handshake :: HandshakePayload where
  "zero_Handshake = \<lparr>hs_NodeID = [], hs_Address = [], hs_KnownPeers = None, hs_Key = None\<rparr>"


definition zero_Request :: DataRequest where
  "zero_Request = \<lparr>rq_ContentHash = [], rq_FromWatch = False\<rparr>"

definition zero_Transfer :: DataTransfer where
  "zero_Transfer = \<lparr>dt_ContentHash = [], dt_Data = None, dt_ChunkIndex = 0, dt_FinalChunk = False,
                     dt_IV = None, dt_FromWatch = False\<rparr>"


text \<open>The structs as JSON objects, by their field tags; \<^verbatim>\<open>iv,omitempty\<close> leaves an empty IV out.\<close>

definition marshal_Handshake :: "HandshakePayload \<Rightarrow> json" where
  "marshal_Handshake p =
     JObject [(''node_id'', json_string (hs_NodeID p)),
              (''address'', json_string (hs_Address p)),
              (''known_peers'', json_strings (hs_KnownPeers p)),
              (''key'', json_bytes (hs_Key p))]"

definition marshal_Data :: "DataPayload \<Rightarrow> json" where
  "marshal_Data p =
     JObject [(''content_hash'', json_string (dp_ContentHash p)),
              (''file_name'', json_string (dp_FileName p)),
              (''size'', json_int (dp_Size p)),
              (''encrypted'', JBool (dp_Encrypted p)),
              (''iv'', json_bytes (dp_IV p)),
              (''from_watch'', JBool (dp_FromWatch p))]"

definition marshal_Request :: "DataRequest \<Rightarrow> json" where
  "marshal_Request p =
     JObject [(''content_hash'', json_string (rq_ContentHash p)),
              (''from_watch'', JBool (rq_FromWatch p))]"

definition marshal_Transfer :: "DataTransfer \<Rightarrow> json" where
  "marshal_Transfer p =
     JObject ([(''content_hash'', json_string (dt_ContentHash p)),
               (''data'', json_bytes (dt_Data p)),
               (''chunk_index'', json_int (dt_ChunkIndex p)),
               (''final_chunk'', JBool (dt_FinalChunk p))]
              @ (if dt_IV p = None \<or> dt_IV p = Some [] then [] else [(''iv'', json_bytes (dt_IV p))])
              @ [(''from_watch'', JBool (dt_FromWatch p))])"

definition marshal_Discovery :: "DiscoveryPayload \<Rightarrow> json" where
  "marshal_Discovery p =
     JObject [(''node_id'', json_string (dc_NodeID p)),
              (''address'', json_string (dc_Address p))]"

text \<open>
  The \<^verbatim>\<open>interface{}\<close> argument of \<open>NewMessage\<close>: one of the five structs, \<^verbatim>\<open>nil\<close>, or a value
  that JSON cannot represent (the tests pass a channel).
\<close>

datatype payload =
    Handshake HandshakePayload
  | Data DataPayload
  | Request DataRequest
  | Transfer DataTransfer
  | Discovery DiscoveryPayload
  | NilValue
  | Unsupported

definition json_Marshal :: "payload \<Rightarrow> error + json" where
  "json_Marshal v =
     (case v of
        Handshake p \<Rightarrow> Inr (marshal_Handshake p)
      | Data p \<Rightarrow> Inr (marshal_Data p)
      | Request p \<Rightarrow> Inr (marshal_Request p)
      | Transfer p \<Rightarrow> Inr (marshal_Transfer p)
      | Discovery p \<Rightarrow> Inr (marshal_Discovery p)
      | NilValue \<Rightarrow> Inr JNull
      | Unsupported \<Rightarrow> Inl (Errorf ''json: unsupported type''))"

definition NewMessage :: "string \<Rightarrow> string \<Rightarrow> payload \<Rightarrow> error + Message" where
  "NewMessage msgType senderID v =
     (case json_Marshal v of
        Inl e \<Rightarrow> Inl e
      | Inr payloadBytes \<Rightarrow> Inr \<lparr>Type = msgType, SenderID = senderID, Payload = Raw payloadBytes\<rparr>)"

text \<open>How a member of an object is stored into each of the structs.\<close>

definition set_Handshake :: "string \<Rightarrow> json \<Rightarrow> HandshakePayload \<Rightarrow> error option \<times> HandshakePayload" where
  "set_Handshake k j p =
     (if k = ''node_id'' then (case dec_string j (hs_NodeID p) of (e, x) \<Rightarrow> (e, p\<lparr>hs_NodeID := x\<rparr>))
      else if k = ''address'' then (case dec_string j (hs_Address p) of (e, x) \<Rightarrow> (e, p\<lparr>hs_Address := x\<rparr>))
      else if k = ''known_peers'' then
        (case dec_strings j (hs_KnownPeers p) of (e, x) \<Rightarrow> (e, p\<lparr>hs_KnownPeers := x\<rparr>))
      else if k = ''key'' then (case dec_bytes j (hs_Key p) of (e, x) \<Rightarrow> (e, p\<lparr>hs_Key := x\<rparr>))
      else (None, p))"


definition set_Request :: "string \<Rightarrow> json \<Rightarrow> DataRequest \<Rightarrow> error option \<times> DataRequest" where
  "set_Request k j p =
     (if k = ''content_hash'' then
        (case dec_string j (rq_ContentHash p) of (e, x) \<Rightarrow> (e, p\<lparr>rq_ContentHash := x\<rparr>))
      else if k = ''from_watch'' then
        (case dec_bool j (rq_FromWatch p) of (e, x) \<Rightarrow> (e, p\<lparr>rq_FromWatch := x\<rparr>))
      else (None, p))"

definition set_Transfer :: "string \<Rightarrow> json \<Rightarrow> DataTransfer \<Rightarrow> error option \<times> DataTransfer" where
  "set_Transfer k j p =
     (if k = ''content_hash'' then
        (case dec_string j (dt_ContentHash p) of (e, x) \<Rightarrow> (e, p\<lparr>dt_ContentHash := x\<rparr>))
      else if k = ''data'' then (case dec_bytes j (dt_Data p) of (e, x) \<Rightarrow> (e, p\<lparr>dt_Data := x\<rparr>))
      else if k = ''chunk_index'' then
        (case dec_int j (dt_ChunkIndex p) of (e, x) \<Rightarrow> (e, p\<lparr>dt_ChunkIndex := x\<rparr>))
      else if k = ''final_chunk'' then
        (case dec_bool j (dt_FinalChunk p) of (e, x) \<Rightarrow> (e, p\<lparr>dt_FinalChunk := x\<rparr>))
      else if k = ''iv'' then (case dec_bytes j (dt_IV p) of (e, x) \<Rightarrow> (e, p\<lparr>dt_IV := x\<rparr>))
      else if k = ''from_watch'' then
        (case dec_bool j (dt_FromWatch p) of (e, x) \<Rightarrow> (e, p\<lparr>dt_FromWatch := x\<rparr>))
      else (None, p))"


text \<open>
  \<open>ParsePayload\<close> into a variable of each of the five struct types
  (\<^verbatim>\<open>var payload T; msg.ParsePayload(&payload)\<close>).
\<close>

definition ParsePayload_Handshake :: "Message \<Rightarrow> error + HandshakePayload" where
  "ParsePayload_Handshake m = json_Unmarshal set_Handshake zero_Handshake (Payload m)"


definition ParsePayload_Request :: "Message \<Rightarrow> error + DataRequest" where
  "ParsePayload_Request m = json_Unmarshal set_Request zero_Request (Payload m)"

definition ParsePayload_Transfer :: "Message \<Rightarrow> error + DataTransfer" where
  "ParsePayload_Transfer m = json_Unmarshal set_Transfer zero_Transfer (Payload m)"


text \<open>The handshake helper of the package.\<close>

record Handshaker =
  hk_NodeID :: string
  hk_Address :: string
  hk_KnownPeers :: "string list option"

definition NewHandshaker :: "string \<Rightarrow> string \<Rightarrow> string list option \<Rightarrow> Handshaker" where
  "NewHandshaker nodeID address knownPeers =
     \<lparr>hk_NodeID = nodeID, hk_Address = address, hk_KnownPeers = knownPeers\<rparr>"

definition CreateHandshake :: "Handshaker \<Rightarrow> error + Message" where
  "CreateHandshake h =
     NewMessage MessageTypeHandshake (hk_NodeID h)
       (Handshake \<lparr>hs_NodeID = hk_NodeID h, hs_Address = hk_Address h,
                   hs_KnownPeers = hk_KnownPeers h, hs_Key = None\<rparr>)"

definition HandleHandshake :: "Handshaker \<Rightarrow> Message \<Rightarrow> error + HandshakePayload" where
  "HandleHandshake h msg =
     (if Type msg \<noteq> MessageTypeHandshake then Inl (Errorf ''invalid message type: expected handshake'')
      else
        (case ParsePayload_Handshake msg of
           Inl e \<Rightarrow> Inl (Wrap ''failed to parse handshake payload'' e)
         | Inr p \<Rightarrow> Inr p))"



section \<open>Package network\<close>

text \<open>
  Closing a channel that is closed already panics.  A channel that is only ever closed
  is its state: closed or not.
\<close>

definition close_chan :: "bool \<Rightarrow> bool outcome" where
  "close_chan closed = (if closed then Panics CloseOfClosedChannel else Returns True)"

text \<open>
  A connection (\<^verbatim>\<open>net.Conn\<close>): the records written to it so far, and whether it is closed.
  Writing to a closed connection and closing it again are errors.
\<close>

record Conn =
  remoteAddr :: string
  closed :: bool
  writeData :: "Message list"

definition conn_Write :: "Conn \<Rightarrow> Message \<Rightarrow> error option \<times> Conn" where
  "conn_Write c m =
     (if closed c then (Some ErrClosed, c) else (None, c\<lparr>writeData := writeData c @ [m]\<rparr>))"

definition conn_Close :: "Conn \<Rightarrow> error option \<times> Conn" where
  "conn_Close c = (if closed c then Some ErrClosed else None, c\<lparr>closed := True\<rparr>)"

record Peer =
  conn :: Conn
  p_done :: bool

definition NewPeer :: "Conn \<Rightarrow> Peer" where
  "NewPeer c = \<lparr>conn = c, p_done = False\<rparr>"

definition Peer_ID :: "Peer \<Rightarrow> string" where
  "Peer_ID p = remoteAddr (conn p)"

text \<open>\<open>Close\<close>: \<^verbatim>\<open>close(p.done)\<close>, then \<^verbatim>\<open>p.conn.Close()\<close>.\<close>

definition Peer_Close :: "Peer \<Rightarrow> error option outcome \<times> Peer" where
  "Peer_Close p =
     (case close_chan (p_done p) of
        Panics pn \<Rightarrow> (Panics pn, p)
      | Returns d \<Rightarrow>
          (case conn_Close (conn p) of (e, c) \<Rightarrow> (Returns e, p\<lparr>p_done := d, conn := c\<rparr>)))"

text \<open>
  \<open>Send\<close>: the encoder writes the message as one record.  Encoding fails when the payload
  is not JSON; the strings of the record are the encoded ones.
\<close>

definition Peer_Send :: "Peer \<Rightarrow> Message \<Rightarrow> error option \<times> Peer" where
  "Peer_Send p msg =
     (if Payload msg = NotJSON then (Some MarshalerError, p)
      else
        (case conn_Write (conn p)
                (msg\<lparr>Type := utf8_coerce (Type msg), SenderID := utf8_coerce (SenderID msg)\<rparr>) of
           (e, c) \<Rightarrow> (e, p\<lparr>conn := c\<rparr>)))"

text \<open>
  \<open>readLoop\<close>, on the results that the decoder gives in turn: it returns when the peer is
  done, closes the peer on a decoding error (the end of the stream is one), and hands a
  message to the handler, whose error is only printed.  The handler changes the peer and
  a state of its own.
\<close>

fun readLoop ::
  "(Peer \<Rightarrow> Message \<Rightarrow> 'w \<Rightarrow> error option \<times> Peer \<times> 'w) \<Rightarrow> (error + Message) list \<Rightarrow> Peer \<Rightarrow> 'w
     \<Rightarrow> unit outcome \<times> Peer \<times> 'w" where
  "readLoop handler [] p w = (Returns (), p, w)"
| "readLoop handler (x # xs) p w =
     (if p_done p then (Returns (), p, w)
      else
        (case x of
           Inl err \<Rightarrow>
             (case Peer_Close p of
                (Panics pn, p') \<Rightarrow> (Panics pn, p', w)
              | (Returns e, p') \<Rightarrow> (Returns (), p', w))
         | Inr msg \<Rightarrow>
             (case handler p msg w of (e, p', w') \<Rightarrow> readLoop handler xs p' w')))"

text \<open>The transport; its registry maps the id of a peer to the peer.\<close>

record Transport =
  t_nodeID :: string
  t_address :: string
  t_peers :: "(string \<times> Peer) list"
  t_listener_closed :: bool
  t_done :: bool

text \<open>\<open>Stop\<close>: the loop over the registry ends with the first \<open>Close\<close> that panics.\<close>

fun close_peers :: "(string \<times> Peer) list \<Rightarrow> unit outcome \<times> (string \<times> Peer) list" where
  "close_peers [] = (Returns (), [])"
| "close_peers ((k, p) # rest) =
     (case Peer_Close p of
        (Panics pn, p') \<Rightarrow> (Panics pn, (k, p') # rest)
      | (Returns e, p') \<Rightarrow>
          (case close_peers rest of (r, rest') \<Rightarrow> (r, (k, p') # rest')))"

definition Transport_Stop :: "Transport \<Rightarrow> unit outcome \<times> Transport" where
  "Transport_Stop t =
     (case close_chan (t_done t) of
        Panics pn \<Rightarrow> (Panics pn, t)
      | Returns d \<Rightarrow>
          (case close_peers (t_peers t) of
             (r, ps) \<Rightarrow> (r, t\<lparr>t_done := d, t_listener_closed := True, t_peers := ps\<rparr>)))"

text \<open>\<open>Broadcast\<close>: a failed \<open>Send\<close> is printed, and the loop goes on.\<close>

fun broadcast_peers :: "Message \<Rightarrow> (string \<times> Peer) list \<Rightarrow> (string \<times> Peer) list" where
  "broadcast_peers msg [] = []"
| "broadcast_peers msg ((k, p) # rest) =
     (case Peer_Send p msg of
        (Some e, p') \<Rightarrow> (k, p') # broadcast_peers msg rest
      | (None, p') \<Rightarrow> (k, p') # broadcast_peers msg rest)"

definition Transport_Broadcast :: "Transport \<Rightarrow> Message \<Rightarrow> error option \<times> Transport" where
  "Transport_Broadcast t msg = (None, t\<lparr>t_peers := broadcast_peers msg (t_peers t)\<rparr>)"

definition Transport_Send :: "Transport \<Rightarrow> string \<Rightarrow> Message \<Rightarrow> error option \<times> Transport" where
  "Transport_Send t peerID msg =
     (case map_of (t_peers t) peerID of
        None \<Rightarrow> (Some (Errorf ''peer not found''), t)
      | Some p \<Rightarrow>
          (case Peer_Send p msg of
             (e, p') \<Rightarrow> (e, t\<lparr>t_peers := map (\<lambda>(k, q). if k = peerID then (k, p') else (k, q)) (t_peers t)\<rparr>)))"

section \<open>Content hashes\<close>

text \<open>
  SHA-1 is a parameter \<open>sha\<close> of the model: a function from the bytes to the 160 bits of
  the digest.  \<open>ContentHash\<close> is the digest in lowercase hexadecimal.
\<close>

type_synonym sha1 = "byte list \<Rightarrow> 160 word"

definition digest_bytes :: "160 word \<Rightarrow> byte list" where
  "digest_bytes w = map (\<lambda>i. ucast (drop_bit (8 * (19 - i)) w)) [0..<20]"

definition hex_digit :: "nat \<Rightarrow> char" where
  "hex_digit n = (if n < 10 then char_of (48 + n) else char_of (87 + n))"

definition hex_EncodeToString :: "byte list \<Rightarrow> string" where
  "hex_EncodeToString bs =
     concat (map (\<lambda>b. [hex_digit (unat b div 16), hex_digit (unat b mod 16)]) bs)"

definition ContentHash :: "sha1 \<Rightarrow> reader \<Rightarrow> error + string" where
  "ContentHash sha r =
     (if faulty r then Inl (Wrap ''failed to hash content'' ErrIO)
      else Inr (hex_EncodeToString (digest_bytes (sha (unread r)))))"

section \<open>More of package os: open files\<close>

text \<open>
  An open file is known by its path.  \<^verbatim>\<open>WriteAt\<close> fails for a negative offset; it fills the
  gap before the offset with zero bytes.  \<^verbatim>\<open>Seek(0, 0)\<close> and reading need the file.
\<close>

definition write_at :: "byte list \<Rightarrow> nat \<Rightarrow> byte list \<Rightarrow> byte list" where
  "write_at old off bs =
     (if bs = [] then old
      else take off (old @ replicate (off - length old) 0) @ bs @ drop (off + length bs) old)"

definition os_WriteAt :: "fs \<Rightarrow> path \<Rightarrow> byte list \<Rightarrow> 64 word \<Rightarrow> error option \<times> fs" where
  "os_WriteAt fs p bs off =
     (case entry_at fs p of
        Some (File old) \<Rightarrow>
          (if sint off < 0 then (Some ErrNegativeOffset, fs)
           else (None, fmupd p (File (write_at old (nat (sint off)) bs)) fs))
      | _ \<Rightarrow> (Some ErrClosed, fs))"

definition os_Seek0 :: "fs \<Rightarrow> path \<Rightarrow> error option" where
  "os_Seek0 fs p = (case entry_at fs p of Some (File bs) \<Rightarrow> None | _ \<Rightarrow> Some ErrClosed)"

definition file_reader :: "fs \<Rightarrow> path \<Rightarrow> reader" where
  "file_reader fs p =
     (case entry_at fs p of
        Some (File bs) \<Rightarrow> \<lparr>unread = bs, faulty = False\<rparr>
      | _ \<Rightarrow> \<lparr>unread = [], faulty = True\<rparr>)"

text \<open>\<^verbatim>\<open>os.Create\<close>: the file is created, or emptied when it exists.\<close>

definition os_Create :: "fs \<Rightarrow> path \<Rightarrow> error option \<times> fs" where
  "os_Create fs p =
     (if \<not> is_dir fs (filepath_Dir p) then (Some ErrNotExist, fs)
      else if is_dir fs p then (Some ErrIsDir, fs)
      else (None, fmupd p (File []) fs))"

section \<open>Package node\<close>

record PeerInfo =
  pi_ID :: string
  pi_Address :: string

record transferState =
  tempFile :: path
  chunks :: "64 word list"
  received :: "64 word"
  fromWatch :: bool

text \<open>
  The node.  \<open>keyReady\<close> says whether the channel of that name is closed; \<open>n_address\<close> is
  what \<^verbatim>\<open>n.transport.Address()\<close> returns.
\<close>

record Node =
  ID :: string
  n_address :: string
  n_store :: store
  networkKey :: "byte list option"
  isFirstNode :: bool
  n_peers :: "(string \<times> PeerInfo) list"
  transfers :: "string \<rightharpoonup> transferState"
  keyReady :: bool




text \<open>
  \<open>handleDataRequest\<close>: the loop reads the stored file in chunks of 1 MiB and sends a
  \<open>DataTransfer\<close> for each; it ends without sending when the read returns \<^verbatim>\<open>io.EOF\<close>.
\<close>

definition transferChunk :: nat where
  "transferChunk = 1024 * 1024"

function send_chunks ::
  "Node \<Rightarrow> DataRequest \<Rightarrow> reader \<Rightarrow> 64 word \<Rightarrow> Peer \<Rightarrow> error option \<times> Peer" where
  "send_chunks n request file chunkIndex peer =
     (case Read file transferChunk of
        (ReadError e, file') \<Rightarrow>
          (if e = EOF then (None, peer) else (Some (Wrap ''failed to read file'' e), peer))
      | (ReadBytes buffer, file') \<Rightarrow>
          (case NewMessage MessageTypeDataTransfer (ID n)
                  (Transfer \<lparr>dt_ContentHash = rq_ContentHash request,
                             dt_Data = Some buffer,
                             dt_ChunkIndex = chunkIndex,
                             dt_FinalChunk = (length buffer < transferChunk),
                             dt_IV = None,
                             dt_FromWatch = rq_FromWatch request\<rparr>) of
             Inl e \<Rightarrow> (Some (Wrap ''failed to create transfer message'' e), peer)
           | Inr transferMsg \<Rightarrow>
               (case Peer_Send peer transferMsg of
                  (Some e, peer') \<Rightarrow> (Some (Wrap ''failed to send chunk'' e), peer')
                | (None, peer') \<Rightarrow> send_chunks n request file' (chunkIndex + 1) peer')))"
  by pat_completeness auto
termination
  by (relation "measure (\<lambda>(n, request, file, chunkIndex, peer). length (unread file))")
     (auto simp: Read_def transferChunk_def split: if_splits)

declare send_chunks.simps [simp del]

text \<open>The record that the loop writes to the peer for the \<open>i\<close>-th chunk when that chunk is full.\<close>

definition full_chunk_msg :: "Node \<Rightarrow> DataRequest \<Rightarrow> byte list \<Rightarrow> 64 word \<Rightarrow> nat \<Rightarrow> Message" where
  "full_chunk_msg n request data chunkIndex i =
     \<lparr>Type = MessageTypeDataTransfer, SenderID = utf8_coerce (ID n),
      Payload = Raw (marshal_Transfer
        \<lparr>dt_ContentHash = rq_ContentHash request,
         dt_Data = Some (take transferChunk (drop (i * transferChunk) data)),
         dt_ChunkIndex = chunkIndex + of_nat i,
         dt_FinalChunk = False,
         dt_IV = None,
         dt_FromWatch = rq_FromWatch request\<rparr>)\<rparr>"

definition handleDataRequest ::
  "Node \<Rightarrow> Peer \<Rightarrow> Message \<Rightarrow> fs \<Rightarrow> error option outcome \<times> Peer" where
  "handleDataRequest n peer msg fs =
     (case ParsePayload_Request msg of
        Inl e \<Rightarrow> (Returns (Some (Wrap ''failed to parse data request'' e)), peer)
      | Inr request \<Rightarrow>
          (case Load (n_store n) (rq_ContentHash request) fs of
             Panics pn \<Rightarrow> (Panics pn, peer)
           | Returns (Inl e) \<Rightarrow> (Returns (Some (Wrap ''failed to load file'' e)), peer)
           | Returns (Inr file) \<Rightarrow>
               (case send_chunks n request file 0 peer of (e, peer') \<Rightarrow> (Returns e, peer'))))"

text \<open>
  \<open>finalizeWatchTransfer\<close>.  Once the state is found, the deferred function removes the
  temp file on every way out, also on a panic of \<open>Store\<close>.  \<open>rnd\<close> names the temp file that
  \<open>Store\<close> creates.
\<close>

definition finalizeWatchTransfer ::
  "sha1 \<Rightarrow> Node \<Rightarrow> string \<Rightarrow> string \<Rightarrow> string \<Rightarrow> fs \<Rightarrow> error option outcome \<times> Node \<times> fs" where
  "finalizeWatchTransfer sha n transferKey expectedHash rnd fs =
     (case transfers n transferKey of
        None \<Rightarrow> (Returns (Some (Errorf ''transfer state not found'')), n, fs)
      | Some state \<Rightarrow>
          (let n1 = n\<lparr>transfers := (transfers n)(transferKey := None)\<rparr>;
               cleanup = (\<lambda>fs'. snd (os_Remove fs' (tempFile state)))
           in (case os_Seek0 fs (tempFile state) of
                 Some e \<Rightarrow> (Returns (Some (Wrap ''failed to reset file pointer'' e)), n1, cleanup fs)
               | None \<Rightarrow>
                   (case ContentHash sha (file_reader fs (tempFile state)) of
                      Inl e \<Rightarrow> (Returns (Some (Wrap ''failed to calculate hash'' e)), n1, cleanup fs)
                    | Inr hash \<Rightarrow>
                        (if hash \<noteq> expectedHash then
                           (Returns (Some (Errorf ''content hash mismatch'')), n1, cleanup fs)
                         else
                           (case os_Seek0 fs (tempFile state) of
                              Some e \<Rightarrow>
                                (Returns (Some (Wrap ''failed to reset file pointer'' e)), n1, cleanup fs)
                            | None \<Rightarrow>
                                (case Store (n_store n1) expectedHash
                                        (file_reader fs (tempFile state)) rnd fs of
                                   (Panics pn, fs1) \<Rightarrow> (Panics pn, n1, cleanup fs1)
                                 | (Returns (Some e), fs1) \<Rightarrow>
                                     (Returns (Some (Wrap ''failed to store file'' e)), n1, cleanup fs1)
                                 | (Returns None, fs1) \<Rightarrow> (Returns None, n1, cleanup fs1))))))))"

text \<open>
  \<open>finalizeDownload\<close>: the same check of the hash, then the temp file is decrypted with
  the network key into \<^verbatim>\<open>downloads/<hash>\<close>.
\<close>

definition finalizeDownload ::
  "sha1 \<Rightarrow> aes \<Rightarrow> Node \<Rightarrow> string \<Rightarrow> string \<Rightarrow> fs \<Rightarrow> error option outcome \<times> Node \<times> fs" where
  "finalizeDownload sha E n transferKey expectedHash fs =
     (case transfers n transferKey of
        None \<Rightarrow> (Returns (Some (Errorf ''transfer state not found'')), n, fs)
      | Some state \<Rightarrow>
          (let n1 = n\<lparr>transfers := (transfers n)(transferKey := None)\<rparr>;
               cleanup = (\<lambda>fs'. snd (os_Remove fs' (tempFile state)));
               finalPath = filepath_Join [''downloads''] [expectedHash]
           in (case os_Seek0 fs (tempFile state) of
                 Some e \<Rightarrow> (Returns (Some (Wrap ''failed to reset file pointer'' e)), n1, cleanup fs)
               | None \<Rightarrow>
                   (case ContentHash sha (file_reader fs (tempFile state)) of
                      Inl e \<Rightarrow> (Returns (Some (Wrap ''failed to calculate hash'' e)), n1, cleanup fs)
                    | Inr hash \<Rightarrow>
                        (if hash \<noteq> expectedHash then
                           (Returns (Some (Errorf ''content hash mismatch'')), n1, cleanup fs)
                         else
                           (case os_Create fs finalPath of
                              (Some e, fs1) \<Rightarrow>
                                (Returns (Some (Wrap ''failed to create final file'' e)), n1, cleanup fs1)
                            | (None, fs1) \<Rightarrow>
                                (case os_Seek0 fs1 (tempFile state) of
                                   Some e \<Rightarrow>
                                     (Returns (Some (Wrap ''failed to reset file pointer'' e)), n1,
                                      cleanup fs1)
                                 | None \<Rightarrow>
                                     (case DecryptStream E
                                             (case networkKey n1 of None \<Rightarrow> [] | Some k \<Rightarrow> k)
                                             (file_reader fs1 (tempFile state)) NewBuffer of
                                        (Some e, r, w) \<Rightarrow>
                                          (Returns (Some (Wrap ''failed to decrypt file'' e)), n1,
                                           cleanup (snd (os_Remove (fmupd finalPath (File (written w)) fs1)
                                                           finalPath)))
                                      | (None, r, w) \<Rightarrow>
                                          (Returns None, n1,
                                           cleanup (snd (os_Remove (fmupd finalPath (File (written w)) fs1)
                                                           (tempFile state))))))))))))"

text \<open>
  \<open>handleDataTransfer\<close>.  The state of the transfer is looked up or created (with a temp
  file named by \<open>rnd\<close>), the chunk is written at \<^verbatim>\<open>ChunkIndex * 1024 * 1024\<close> (a 64-bit
  product), and the final chunk finalizes the transfer by the origin the state records.
\<close>

definition transferKey_of :: "Peer \<Rightarrow> DataTransfer \<Rightarrow> string" where
  "transferKey_of peer transfer = Peer_ID peer @ ''-'' @ dt_ContentHash transfer"

definition transfer_state ::
  "Node \<Rightarrow> string \<Rightarrow> DataTransfer \<Rightarrow> string \<Rightarrow> fs \<Rightarrow> (error + transferState \<times> Node) \<times> fs" where
  "transfer_state n transferKey transfer rnd fs =
     (case transfers n transferKey of
        Some state \<Rightarrow> (Inr (state, n), fs)
      | None \<Rightarrow>
          (case CreateTemp (n_store n) rnd fs of
             (Inl e, fs1) \<Rightarrow> (Inl (Wrap ''failed to create temp file'' e), fs1)
           | (Inr tmp, fs1) \<Rightarrow>
               (let state = \<lparr>tempFile = tmp, chunks = [], received = 0,
                             fromWatch = dt_FromWatch transfer\<rparr>
                in (Inr (state, n\<lparr>transfers := (transfers n)(transferKey \<mapsto> state)\<rparr>), fs1))))"

definition handleDataTransfer ::
  "sha1 \<Rightarrow> aes \<Rightarrow> Node \<Rightarrow> Peer \<Rightarrow> Message \<Rightarrow> string \<Rightarrow> string \<Rightarrow> fs
     \<Rightarrow> error option outcome \<times> Node \<times> fs" where
  "handleDataTransfer sha E n peer msg rnd rnd' fs =
     (case ParsePayload_Transfer msg of
        Inl e \<Rightarrow> (Returns (Some (Wrap ''failed to parse data transfer'' e)), n, fs)
      | Inr transfer \<Rightarrow>
          (let transferKey = transferKey_of peer transfer
           in (case transfer_state n transferKey transfer rnd fs of
                 (Inl e, fs1) \<Rightarrow> (Returns (Some e), n, fs1)
               | (Inr (state, n1), fs1) \<Rightarrow>
                   (case os_WriteAt fs1 (tempFile state)
                           (case dt_Data transfer of None \<Rightarrow> [] | Some bs \<Rightarrow> bs)
                           (dt_ChunkIndex transfer * 1024 * 1024) of
                      (Some e, fs2) \<Rightarrow> (Returns (Some (Wrap ''failed to write chunk'' e)), n1, fs2)
                    | (None, fs2) \<Rightarrow>
                        (let state' = state\<lparr>chunks := List.insert (dt_ChunkIndex transfer) (chunks state),
                                             received := received state + 1\<rparr>;
                             n2 = n1\<lparr>transfers := (transfers n1)(transferKey \<mapsto> state')\<rparr>
                         in if dt_FinalChunk transfer then
                              (if fromWatch state' then
                                 (case finalizeWatchTransfer sha n2 transferKey
                                         (dt_ContentHash transfer) rnd' fs2 of
                                    (Returns (Some e), n3, fs3) \<Rightarrow>
                                      (Returns (Some (Wrap ''failed to finalize watch transfer'' e)), n3, fs3)
                                  | other \<Rightarrow> other)
                               else
                                 (case finalizeDownload sha E n2 transferKey
                                         (dt_ContentHash transfer) fs2 of
                                    (Returns (Some e), n3, fs3) \<Rightarrow>
                                      (Returns (Some (Wrap ''failed to finalize download'' e)), n3, fs3)
                                  | other \<Rightarrow> other))
                            else (Returns None, n2, fs2))))))"

section \<open>Proofs: package crypto\<close>

lemma keystream_byte_used [simp]: "keystream_byte (s\<lparr>used := u\<rparr>) p = keystream_byte s p"
  by (simp add: keystream_byte_def)

lemma length_xor_from [simp]: "length (xor_from s p bs) = length bs"
  by (simp add: xor_from_def)

lemma xor_from_Nil [simp]: "xor_from s p [] = []"
  by (simp add: xor_from_def)

lemma xor_from_Cons: "xor_from s p (b # bs) = (b XOR keystream_byte s p) # xor_from s (Suc p) bs"
  by (simp add: xor_from_def upt_conv_Cons del: upt_Suc)

lemma xor_from_append: "xor_from s p (xs @ ys) = xor_from s p xs @ xor_from s (p + length xs) ys"
  by (induction xs arbitrary: p) (simp_all add: xor_from_Cons)

lemma xor_from_involution: "xor_from s p (xor_from s p bs) = bs"
  by (induction bs arbitrary: p) (simp_all add: xor_from_Cons xor.assoc)

lemma xor_from_used [simp]: "xor_from (s\<lparr>used := u\<rparr>) p bs = xor_from s p bs"
  by (simp add: xor_from_def)

lemma XORKeyStream_xor_from: "XORKeyStream s src = (xor_from s (used s) src, s\<lparr>used := used s + length src\<rparr>)"
  by (simp add: XORKeyStream_def xor_from_def)

lemma stream_loop_ok:
  "\<not> faulty r \<Longrightarrow> \<not> broken w \<Longrightarrow>
   stream_loop rmsg wmsg s r w =
     (None, r\<lparr>unread := []\<rparr>, w\<lparr>written := written w @ xor_from s (used s) (unread r)\<rparr>)"
proof (induction rmsg wmsg s r w rule: stream_loop.induct)
  case (1 rmsg wmsg s r w)
  show ?case
  proof (cases "unread r = []")
    case True
    with "1.prems" show ?thesis
      by (subst stream_loop.simps) (simp add: Read_def)
  next
    case False
    let ?buf = "take ChunkSize (unread r)"
    let ?r' = "r\<lparr>unread := drop ChunkSize (unread r)\<rparr>"
    let ?s' = "s\<lparr>used := used s + length ?buf\<rparr>"
    let ?w' = "w\<lparr>written := written w @ xor_from s (used s) ?buf\<rparr>"
    have rd: "Read r ChunkSize = (ReadBytes ?buf, ?r')"
      using False by (simp add: Read_def)
    have xs: "XORKeyStream s ?buf = (xor_from s (used s) ?buf, ?s')"
      by (rule XORKeyStream_xor_from)
    have wr: "Write w (xor_from s (used s) ?buf) = (None, ?w')"
      using "1.prems" by (simp add: Write_def)
    have IH: "stream_loop rmsg wmsg ?s' ?r' ?w' =
        (None, ?r'\<lparr>unread := []\<rparr>,
         ?w'\<lparr>written := written ?w' @ xor_from ?s' (used ?s') (unread ?r')\<rparr>)"
      using "1.IH" [OF rd [symmetric] refl xs [symmetric] wr [symmetric] refl] "1.prems" by simp
    have "xor_from s (used s) (unread r) =
        xor_from s (used s) ?buf @ xor_from s (used s + length ?buf) (drop ChunkSize (unread r))"
      using xor_from_append [of s "used s" ?buf "drop ChunkSize (unread r)"] by simp
    with IH show ?thesis
      by (subst stream_loop.simps) (simp add: rd xs wr del: stream_loop.simps)
  qed
qed

lemma encrypt_bytes_ok:
  assumes "length key = KeySize" and "rng_ok g"
  shows "encrypt_bytes E g key P =
           Inr (map (rng_bytes g) [0..<IVSize] @
                xor_from (NewCTR (E key) (map (rng_bytes g) [0..<IVSize])) 0 P)"
  using assms
  by (simp add: encrypt_bytes_def EncryptStream_def aes_NewCipher_def GenerateIV_def
      rand_Read_def Write_def NewBuffer_def NewReader_def stream_loop_ok NewCTR_def KeySize_def)

lemma decrypt_bytes_ok:
  assumes "length key = KeySize" and "length iv = IVSize"
  shows "decrypt_bytes E key (iv @ body) = Inr (xor_from (NewCTR (E key) iv) 0 body)"
  using assms
  by (simp add: decrypt_bytes_def DecryptStream_def aes_NewCipher_def ReadFull_def
      NewBuffer_def NewReader_def stream_loop_ok NewCTR_def KeySize_def)

text \<open>
  Claim C3.  For every key of 32 bytes and every plaintext \<open>P\<close>, of any length (so also
  of a length that crosses the 64 KiB chunk boundaries, such as 3 \<times> 64 KiB), and for
  every block function and every IV the random source delivers, \<open>EncryptStream\<close>
  succeeds and writes the 16 bytes of the IV and \<open>length P\<close> more, and \<open>DecryptStream\<close>
  with the same key applied to that output succeeds and writes exactly \<open>P\<close>.
\<close>

theorem EncryptStream_DecryptStream_roundtrip:
  assumes "length key = KeySize" and "rng_ok g"
  shows "\<exists>ct. encrypt_bytes E g key P = Inr ct \<and> length ct = IVSize + length P \<and>
              decrypt_bytes E key ct = Inr P"
proof -
  let ?iv = "map (rng_bytes g) [0..<IVSize]"
  let ?body = "xor_from (NewCTR (E key) ?iv) 0 P"
  have "encrypt_bytes E g key P = Inr (?iv @ ?body)"
    using assms by (rule encrypt_bytes_ok)
  moreover have "length (?iv @ ?body) = IVSize + length P"
    by simp
  moreover have "decrypt_bytes E key (?iv @ ?body) = Inr P"
    using assms(1) by (simp add: decrypt_bytes_ok xor_from_involution)
  ultimately show ?thesis by blast
qed

theorem EncryptStream_DecryptStream_roundtrip_witness:
  "length (replicate 32 (0::byte)) = KeySize \<and> rng_ok (Rng True (\<lambda>i. of_nat i)) \<and>
   (\<exists>ct. encrypt_bytes (\<lambda>k b. b + 1) (Rng True (\<lambda>i. of_nat i)) (replicate 32 0)
            (replicate (3 * ChunkSize) 7) = Inr ct \<and>
         length ct = IVSize + length (replicate (3 * ChunkSize) (7::byte)) \<and>
         decrypt_bytes (\<lambda>k b. b + 1) (replicate 32 0) ct = Inr (replicate (3 * ChunkSize) 7))"
proof -
  have k: "length (replicate 32 (0::byte)) = KeySize"
    by (simp add: KeySize_def)
  have g: "rng_ok (Rng True (\<lambda>i. of_nat i))"
    by simp
  from k g EncryptStream_DecryptStream_roundtrip [OF k g] show ?thesis
    by (intro conjI)
qed

section \<open>Proofs: paths and package storage\<close>












lemma os_Stat_None: "os_Stat fs d = Inl e \<Longrightarrow> fmlookup fs d = None \<and> d \<noteq> []"
  by (auto simp: os_Stat_def entry_at_def split: if_splits option.splits)

lemma mkdir_each_lookup:
  "fmlookup fs p = Some e \<Longrightarrow> fmlookup (snd (mkdir_each fs ds)) p = Some e"
proof (induction ds arbitrary: fs)
  case Nil
  then show ?case by simp
next
  case (Cons d ds)
  show ?case
  proof (cases "os_Stat fs d")
    case (Inl err)
    then have "fmlookup fs d = None" by (simp add: os_Stat_None)
    with Cons.prems have "p \<noteq> d" by auto
    then have "fmlookup (fmupd d Directory fs) p = Some e"
      using Cons.prems by simp
    then show ?thesis using Inl Cons.IH by simp
  next
    case (Inr ent)
    then show ?thesis using Cons by (cases ent) simp_all
  qed
qed

lemma is_dir_fmupd_other: "is_dir fs d \<Longrightarrow> is_dir (fmupd q Directory fs) d"
  by (auto simp: is_dir_def os_Stat_def entry_at_def split: option.splits if_splits)

lemma mkdir_each_keeps_dir: "is_dir fs d \<Longrightarrow> is_dir (snd (mkdir_each fs ds)) d"
proof (induction ds arbitrary: fs)
  case Nil then show ?case by simp
next
  case (Cons x ds)
  show ?case
  proof (cases "os_Stat fs x")
    case (Inl err)
    then show ?thesis using Cons by (simp add: is_dir_fmupd_other)
  next
    case (Inr ent)
    then show ?thesis using Cons by (cases ent) simp_all
  qed
qed

lemma mkdir_each_makes_dir:
  "mkdir_each fs ds = (None, fs') \<Longrightarrow> d \<in> set ds \<Longrightarrow> is_dir fs' d"
proof (induction ds arbitrary: fs)
  case Nil then show ?case by simp
next
  case (Cons x ds)
  show ?case
  proof (cases "os_Stat fs x")
    case (Inl err)
    have "is_dir (fmupd x Directory fs) x"
      using Inl by (auto simp: is_dir_def os_Stat_def entry_at_def split: if_splits)
    then have "is_dir (snd (mkdir_each (fmupd x Directory fs) ds)) x"
      by (rule mkdir_each_keeps_dir)
    then show ?thesis using Inl Cons by auto
  next
    case (Inr ent)
    show ?thesis
    proof (cases ent)
      case (File bs)
      then show ?thesis using Inr Cons.prems by simp
    next
      case Directory
      have "is_dir (snd (mkdir_each fs ds)) x"
        using Inr Directory by (intro mkdir_each_keeps_dir) (simp add: is_dir_def)
      then show ?thesis using Inr Directory Cons by auto
    qed
  qed
qed

lemma os_MkdirAll_is_dir: "os_MkdirAll fs p = (None, fs') \<Longrightarrow> is_dir fs' p"
proof (cases "p = []")
  case True
  then show ?thesis by (simp add: is_dir_def os_Stat_def entry_at_def)
next
  case False
  assume "os_MkdirAll fs p = (None, fs')"
  moreover have "p \<in> set (map (\<lambda>n. take n p) [1..<Suc (length p)])"
    using False by (auto simp: image_iff intro!: bexI [of _ "length p"]) (cases p; simp)
  ultimately show ?thesis
    unfolding os_MkdirAll_def by (rule mkdir_each_makes_dir)
qed

lemma os_MkdirAll_lookup:
  "fmlookup fs p = Some e \<Longrightarrow> fmlookup (snd (os_MkdirAll fs q)) p = Some e"
  unfolding os_MkdirAll_def by (rule mkdir_each_lookup)






subsection \<open>Listing the store\<close>

lemma split_sep_nonempty: "split_sep s \<noteq> []"
  by (induction s) (auto split: list.splits)





















subsection \<open>Hashes too short to shard\<close>

text \<open>
  Claim C10, as amended.  \<open>Load\<close>, \<open>Exists\<close> and \<open>Delete\<close> panic exactly when the hash
  has fewer than four bytes; \<open>Store\<close> panics exactly when the hash has fewer than four
  bytes and its temp file has been created and written, since it computes the path only then;
  the only panic of the four is the slice bounds fault of \<open>hashToPath\<close>.
\<close>

theorem short_hash_panics:
  "panics (Load s h fs) = (length h < 4) \<and>
   panics (Exists s h fs) = (length h < 4) \<and>
   panics (fst (Delete s h fs)) = (length h < 4) \<and>
   panics (fst (Store s h r rnd fs)) =
     (length h < 4 \<and> \<not> isl (fst (os_CreateTemp fs (tempDir s) ''store-'' rnd)) \<and> \<not> faulty r) \<and>
   (\<forall>pn. Load s h fs = Panics pn \<or> Exists s h fs = Panics pn \<or> fst (Delete s h fs) = Panics pn \<or>
         fst (Store s h r rnd fs) = Panics pn \<longrightarrow> pn = SliceBoundsOutOfRange)"
proof -
  have ld: "panics (Load s h fs) = (length h < 4)"
    by (simp add: panics_def Load_def hashToPath_def split: sum.splits)
  have ex: "panics (Exists s h fs) = (length h < 4)"
    by (simp add: panics_def Exists_def hashToPath_def)
  have dl: "panics (fst (Delete s h fs)) = (length h < 4)"
    by (simp add: panics_def Delete_def hashToPath_def split: prod.splits option.splits)
  have st: "panics (fst (Store s h r rnd fs)) =
     (length h < 4 \<and> \<not> isl (fst (os_CreateTemp fs (tempDir s) ''store-'' rnd)) \<and> \<not> faulty r)"
    by (auto simp: panics_def Store_def hashToPath_def os_CreateTemp_def io_Copy_def entry_at_def
        split: prod.splits option.splits sum.splits if_splits)
  have only: "pn = SliceBoundsOutOfRange"
    if "Load s h fs = Panics pn \<or> Exists s h fs = Panics pn \<or> fst (Delete s h fs) = Panics pn \<or>
         fst (Store s h r rnd fs) = Panics pn" for pn
    using that
    by (auto simp: Load_def Exists_def Delete_def Store_def hashToPath_def
        split: prod.splits option.splits sum.splits if_splits)
  show ?thesis
    using ld ex dl st only by blast
qed

theorem short_hash_panics_witness:
  "length ''abc'' < 4 \<and>
   Load \<lparr>baseDir = [''store''], tempDir = [''store'', ''temp'']\<rparr> ''abc''
     (snd (NewStore [''store''] fmempty)) = Panics SliceBoundsOutOfRange \<and>
   fst (Store \<lparr>baseDir = [''store''], tempDir = [''store'', ''temp'']\<rparr> ''abc''
          (NewReader [1, 2, 3]) ''42'' (snd (NewStore [''store''] fmempty))) =
     Panics SliceBoundsOutOfRange"
proof -
  let ?s = "\<lparr>baseDir = [''store''], tempDir = [''store'', ''temp'']\<rparr>"
  let ?fs = "snd (NewStore [''store''] fmempty)"
  let ?r = "NewReader [1, 2, 3]"
  note inst = short_hash_panics [of ?s "''abc''" ?fs ?r "''42''"]
  have ct: "\<not> isl (fst (os_CreateTemp ?fs (tempDir ?s) ''store-'' ''42'')) \<and> \<not> faulty ?r"
    by code_simp
  have "panics (Load ?s ''abc'' ?fs)"
    using inst by simp
  then obtain pn where pn: "Load ?s ''abc'' ?fs = Panics pn"
    by (cases "Load ?s ''abc'' ?fs") (simp_all add: panics_def)
  have "panics (fst (Store ?s ''abc'' ?r ''42'' ?fs))"
    using inst ct by simp
  then obtain pn' where pn': "fst (Store ?s ''abc'' ?r ''42'' ?fs) = Panics pn'"
    by (cases "fst (Store ?s ''abc'' ?r ''42'' ?fs)") (simp_all add: panics_def)
  have "pn = SliceBoundsOutOfRange" "pn' = SliceBoundsOutOfRange"
    using inst pn pn' by blast+
  with pn pn' show ?thesis by simp
qed

text \<open>
  Claim C10 as it is stated fails for \<open>Store\<close>: with a reader that fails, \<open>Store\<close> under
  the three byte hash \<^verbatim>\<open>abc\<close> returns the write error and does not panic.
\<close>

theorem Store_short_hash_returns_error:
  "length ''abc'' < 4 \<and>
   fst (Store \<lparr>baseDir = [''store''], tempDir = [''store'', ''temp'']\<rparr> ''abc''
          \<lparr>unread = [1, 2, 3], faulty = True\<rparr> ''42'' (snd (NewStore [''store''] fmempty))) =
     Returns (Some (Wrap ''failed to write content'' ErrIO))"
  by code_simp

section \<open>Proofs: JSON and package protocol\<close>

lemma char_eq_of_char: "(c = d) = ((of_char c :: nat) = of_char d)"
  by (simp add: of_char_eq_iff)

lemma b64_val_char: "n < 64 \<Longrightarrow> b64_val (b64_char n) = Some n"
proof -
  assume n: "n < 64"
  consider "n < 26" | "26 \<le> n \<and> n < 52" | "52 \<le> n \<and> n < 62" | "n = 62" | "n = 63"
    using n by linarith
  then show ?thesis
  proof cases
    case 1
    then show ?thesis by (simp add: b64_val_def b64_char_def Let_def)
  next
    case 2
    then show ?thesis by (simp add: b64_val_def b64_char_def Let_def)
  next
    case 3
    then have "(n - 4) mod 256 = n - 4" by (intro mod_less) linarith
    with 3 show ?thesis by (simp add: b64_val_def b64_char_def Let_def) arith
  next
    case 4
    then show ?thesis by (simp add: b64_val_def b64_char_def Let_def)
  next
    case 5
    then show ?thesis by (simp add: b64_val_def b64_char_def Let_def)
  qed
qed

lemma b64_char_not_pad: "n < 64 \<Longrightarrow> b64_char n \<noteq> CHR ''=''"
  using b64_val_char [of n] by (auto simp: b64_val_def Let_def split: if_splits)

lemma b64_char_not_nl: "n < 64 \<Longrightarrow> b64_char n \<noteq> CHR 0x0D \<and> b64_char n \<noteq> CHR 0x0A"
  using b64_val_char [of n] by (auto simp: b64_val_def Let_def split: if_splits)

lemma sextet_bounds:
  fixes A B C :: nat
  assumes "A < 256" "B < 256" "C < 256"
  shows "A div 4 < 64" "(A mod 4) * 16 + B div 16 < 64" "(B mod 16) * 4 + C div 64 < 64"
    "C mod 64 < 64" "(A mod 4) * 16 < 64" "(B mod 16) * 4 < 64"
proof -
  have a: "A mod 4 < 4" "B mod 16 < 16" by simp_all
  have b: "B div 16 < 16" "C div 64 < 4" "A div 4 < 64" using assms by simp_all
  show "A div 4 < 64" by (rule b)
  show "(A mod 4) * 16 + B div 16 < 64" using a(1) b(1) by linarith
  show "(B mod 16) * 4 + C div 64 < 64" using a(2) b(2) by linarith
  show "C mod 64 < 64" by simp
  show "(A mod 4) * 16 < 64" using a(1) by linarith
  show "(B mod 16) * 4 < 64" using a(2) by linarith
qed

lemma sextet_join:
  fixes A B C :: nat
  assumes "A < 256" "B < 256" "C < 256"
  shows "A div 4 * 4 + ((A mod 4) * 16 + B div 16) div 16 = A"
    "(((A mod 4) * 16 + B div 16) mod 16) * 16 + ((B mod 16) * 4 + C div 64) div 4 = B"
    "(((B mod 16) * 4 + C div 64) mod 4) * 64 + C mod 64 = C"
    "A div 4 * 4 + ((A mod 4) * 16) div 16 = A"
    "(((A mod 4) * 16 + B div 16) mod 16) * 16 + ((B mod 16) * 4) div 4 = B"
proof -
  have b: "B div 16 < 16" "C div 64 < 4" using assms by simp_all
  show "A div 4 * 4 + ((A mod 4) * 16 + B div 16) div 16 = A"
    using b(1) by simp
  show "(((A mod 4) * 16 + B div 16) mod 16) * 16 + ((B mod 16) * 4 + C div 64) div 4 = B"
    using b by simp
  show "(((B mod 16) * 4 + C div 64) mod 4) * 64 + C mod 64 = C"
    using b(2) by simp
  show "A div 4 * 4 + ((A mod 4) * 16) div 16 = A"
    by simp
  show "(((A mod 4) * 16 + B div 16) mod 16) * 16 + ((B mod 16) * 4) div 4 = B"
    using b(1) by simp
qed

lemma unat_byte_lt: "unat (a :: byte) < 256"
  using unsigned_less [of a, where ?'a = nat] by simp

lemma of_nat_unat_byte: "n = unat (a :: byte) \<Longrightarrow> of_nat n = a"
  by simp

lemma b64_groups_encode: "b64_groups (b64_encode bs) = Some bs"
proof (induction bs rule: b64_encode.induct)
  case 1
  then show ?case by simp
next
  case (2 a)
  define v1 where "v1 = unat a div 4"
  define v2 where "v2 = (unat a mod 4) * 16"
  note bd = sextet_bounds [OF unat_byte_lt [of a] unat_byte_lt [of a] unat_byte_lt [of a]]
  note jn = sextet_join [OF unat_byte_lt [of a] unat_byte_lt [of a] unat_byte_lt [of a]]
  have enc: "b64_encode [a] = [b64_char v1, b64_char v2, CHR ''='', CHR ''='']"
    by (simp add: v1_def v2_def)
  have vals: "b64_val (b64_char v1) = Some v1" "b64_val (b64_char v2) = Some v2"
    unfolding v1_def v2_def by (rule b64_val_char, rule bd)+
  have bytes: "of_nat (v1 * 4 + v2 div 16) = a"
    unfolding v1_def v2_def by (rule of_nat_unat_byte) (rule jn)
  show ?case
    unfolding enc by (simp add: vals bytes del: of_nat_add of_nat_mult)
next
  case (3 a b)
  define v1 where "v1 = unat a div 4"
  define v2 where "v2 = (unat a mod 4) * 16 + unat b div 16"
  define v3 where "v3 = (unat b mod 16) * 4"
  note bd = sextet_bounds [OF unat_byte_lt [of a] unat_byte_lt [of b] unat_byte_lt [of b]]
  note jn = sextet_join [OF unat_byte_lt [of a] unat_byte_lt [of b] unat_byte_lt [of b]]
  have enc: "b64_encode [a, b] = [b64_char v1, b64_char v2, b64_char v3, CHR ''='']"
    by (simp add: v1_def v2_def v3_def)
  have vals: "b64_val (b64_char v1) = Some v1" "b64_val (b64_char v2) = Some v2"
      "b64_val (b64_char v3) = Some v3"
    unfolding v1_def v2_def v3_def by (rule b64_val_char, rule bd)+
  have np: "b64_char v3 \<noteq> CHR ''=''"
    unfolding v3_def by (rule b64_char_not_pad) (rule bd)
  have bytes: "of_nat (v1 * 4 + v2 div 16) = a" "of_nat ((v2 mod 16) * 16 + v3 div 4) = b"
    unfolding v1_def v2_def v3_def by (rule of_nat_unat_byte, rule jn)+
  show ?case
    unfolding enc by (simp add: vals bytes np del: of_nat_add of_nat_mult)
next
  case (4 a b c rest)
  define v1 where "v1 = unat a div 4"
  define v2 where "v2 = (unat a mod 4) * 16 + unat b div 16"
  define v3 where "v3 = (unat b mod 16) * 4 + unat c div 64"
  define v4 where "v4 = unat c mod 64"
  note bd = sextet_bounds [OF unat_byte_lt [of a] unat_byte_lt [of b] unat_byte_lt [of c]]
  note jn = sextet_join [OF unat_byte_lt [of a] unat_byte_lt [of b] unat_byte_lt [of c]]
  have enc: "b64_encode (a # b # c # rest) =
      [b64_char v1, b64_char v2, b64_char v3, b64_char v4] @ b64_encode rest"
    by (simp add: v1_def v2_def v3_def v4_def)
  have vals: "b64_val (b64_char v1) = Some v1" "b64_val (b64_char v2) = Some v2"
      "b64_val (b64_char v3) = Some v3" "b64_val (b64_char v4) = Some v4"
    unfolding v1_def v2_def v3_def v4_def by (rule b64_val_char, rule bd)+
  have np: "b64_char v3 \<noteq> CHR ''=''" "b64_char v4 \<noteq> CHR ''=''"
    unfolding v3_def v4_def by (rule b64_char_not_pad, rule bd)+
  have bytes: "of_nat (v1 * 4 + v2 div 16) = a" "of_nat ((v2 mod 16) * 16 + v3 div 4) = b"
      "of_nat ((v3 mod 4) * 64 + v4) = c"
    unfolding v1_def v2_def v3_def v4_def by (rule of_nat_unat_byte, rule jn)+
  show ?case
  proof (cases "b64_encode rest")
    case Nil
    then have "rest = []" by (cases rest rule: b64_encode.cases) simp_all
    with Nil show ?thesis
      unfolding enc by (simp add: vals bytes np del: of_nat_add of_nat_mult)
  next
    case (Cons x xs)
    with "4.IH" have "b64_groups (x # xs) = Some rest" by simp
    with Cons show ?thesis
      unfolding enc by (simp add: vals bytes del: of_nat_add of_nat_mult)
  qed
qed

lemma b64_encode_no_newline:
  "c \<in> set (b64_encode bs) \<Longrightarrow> c \<noteq> CHR 0x0D \<and> c \<noteq> CHR 0x0A"
proof (induction bs rule: b64_encode.induct)
  case 1
  then show ?case by simp
next
  case (2 a)
  note bd = sextet_bounds [OF unat_byte_lt [of a] unat_byte_lt [of a] unat_byte_lt [of a]]
  from 2 show ?case using b64_char_not_nl bd by auto
next
  case (3 a b)
  note bd = sextet_bounds [OF unat_byte_lt [of a] unat_byte_lt [of b] unat_byte_lt [of b]]
  from 3 show ?case using b64_char_not_nl bd by auto
next
  case (4 a b c rest)
  note bd = sextet_bounds [OF unat_byte_lt [of a] unat_byte_lt [of b] unat_byte_lt [of c]]
  from 4 show ?case using b64_char_not_nl bd by auto
qed

lemma b64_decode_encode: "b64_decode (b64_encode bs) = Some bs"
proof -
  have "filter (\<lambda>c. c \<noteq> CHR 0x0D \<and> c \<noteq> CHR 0x0A) (b64_encode bs) = b64_encode bs"
    by (rule filter_True) (use b64_encode_no_newline in blast)
  then show ?thesis
    by (simp add: b64_decode_def b64_groups_encode)
qed

lemma fold_name_keys:
  "fold_name ''node_id'' = ''node_id''" "fold_name ''address'' = ''address''"
  "fold_name ''known_peers'' = ''known_peers''" "fold_name ''key'' = ''key''"
  "fold_name ''content_hash'' = ''content_hash''" "fold_name ''file_name'' = ''file_name''"
  "fold_name ''size'' = ''size''" "fold_name ''encrypted'' = ''encrypted''"
  "fold_name ''iv'' = ''iv''" "fold_name ''from_watch'' = ''from_watch''"
  "fold_name ''data'' = ''data''" "fold_name ''chunk_index'' = ''chunk_index''"
  "fold_name ''final_chunk'' = ''final_chunk''"
  by (simp_all add: fold_name_def to_lower_def)

lemma dec_string_json: "dec_string (json_string s) cur = (None, utf8_coerce s)"
  by (simp add: dec_string_def json_string_def)

lemma foldl_first_error_None: "\<forall>e \<in> set es. e = None \<Longrightarrow> foldl first_error None es = None"
  by (induction es) (simp_all add: first_error_def)

lemma dec_strings_json:
  "dec_strings (json_strings l) cur = (None, map_option (map utf8_coerce) l)"
  by (cases l) (simp_all add: dec_strings_def json_strings_def dec_string_json
      foldl_first_error_None comp_def)

lemma dec_bytes_json: "dec_bytes (json_bytes b) cur = (None, b)"
  by (cases b) (simp_all add: dec_bytes_def json_bytes_def b64_decode_encode)

lemma dec_int_json: "dec_int (json_int w) cur = (None, w)"
proof -
  have "- (2 ^ 63) \<le> sint w" "sint w < 2 ^ 63"
    using sint_ge [of w] sint_lt [of w] by simp_all
  then show ?thesis
    by (simp add: dec_int_def json_int_def)
qed

lemma dec_bool_json: "dec_bool (JBool b) cur = (None, b)"
  by (simp add: dec_bool_def)

lemmas dec_json = dec_string_json dec_strings_json dec_bytes_json dec_int_json dec_bool_json

definition wire_Handshake :: "HandshakePayload \<Rightarrow> HandshakePayload" where
  "wire_Handshake p = p\<lparr>hs_NodeID := utf8_coerce (hs_NodeID p), hs_Address := utf8_coerce (hs_Address p),
      hs_KnownPeers := map_option (map utf8_coerce) (hs_KnownPeers p)\<rparr>"

lemma Unmarshal_Handshake_Handshake:
  "json_Unmarshal set_Handshake zero_Handshake (Raw (marshal_Handshake p)) = Inr (wire_Handshake p)"
  by (simp add: json_Unmarshal_def marshal_Handshake_def store_member_def set_Handshake_def
      fold_name_keys dec_json first_error_def zero_Handshake_def wire_Handshake_def)

lemmas unm_defs = json_Unmarshal_def store_member_def fold_name_keys dec_json first_error_def
  marshal_Handshake_def marshal_Data_def marshal_Request_def marshal_Transfer_def
  marshal_Discovery_def
















section \<open>Proofs: package network\<close>

lemma broadcast_peers_map:
  "broadcast_peers msg ps = map (\<lambda>(k, p). (k, snd (Peer_Send p msg))) ps"
  by (induction ps) (auto split: prod.splits option.splits)

lemma Peer_Send_open:
  "\<not> closed (conn p) \<Longrightarrow> Payload msg \<noteq> NotJSON \<Longrightarrow>
   Peer_Send p msg =
     (None, p\<lparr>conn := (conn p)\<lparr>writeData := writeData (conn p) @
        [msg\<lparr>Type := utf8_coerce (Type msg), SenderID := utf8_coerce (SenderID msg)\<rparr>]\<rparr>\<rparr>)"
  by (simp add: Peer_Send_def conn_Write_def)

text \<open>
  Claim C9.  \<open>Broadcast\<close> always returns \<^verbatim>\<open>nil\<close>, and it calls \<open>Send\<close> on every registered
  peer, whatever the \<open>Send\<close> to the other peers did: a registered peer whose connection
  is open has the record written to it (the message must be one that can be encoded).
\<close>

theorem Broadcast_reaches_every_peer:
  "fst (Transport_Broadcast t msg) = None \<and>
   t_peers (snd (Transport_Broadcast t msg)) =
     map (\<lambda>(k, p). (k, snd (Peer_Send p msg))) (t_peers t) \<and>
   (\<forall>k p. (k, p) \<in> set (t_peers t) \<and> \<not> closed (conn p) \<and> Payload msg \<noteq> NotJSON \<longrightarrow>
      (k, p\<lparr>conn := (conn p)\<lparr>writeData := writeData (conn p) @
          [msg\<lparr>Type := utf8_coerce (Type msg), SenderID := utf8_coerce (SenderID msg)\<rparr>]\<rparr>\<rparr>)
        \<in> set (t_peers (snd (Transport_Broadcast t msg))))"
proof -
  have "(k, p\<lparr>conn := (conn p)\<lparr>writeData := writeData (conn p) @
          [msg\<lparr>Type := utf8_coerce (Type msg), SenderID := utf8_coerce (SenderID msg)\<rparr>]\<rparr>\<rparr>)
        \<in> set (broadcast_peers msg (t_peers t))"
    if "(k, p) \<in> set (t_peers t)" "\<not> closed (conn p)" "Payload msg \<noteq> NotJSON" for k p
  proof -
    have "(k, snd (Peer_Send p msg)) \<in> set (broadcast_peers msg (t_peers t))"
      using that(1) by (force simp: broadcast_peers_map)
    then show ?thesis
      using that(2,3) by (simp add: Peer_Send_open)
  qed
  then show ?thesis
    by (simp add: Transport_Broadcast_def broadcast_peers_map [symmetric])
qed

lemma Peer_Close_twice: "fst (Peer_Close (snd (Peer_Close p))) = Panics CloseOfClosedChannel"
  by (cases "p_done p") (simp_all add: Peer_Close_def close_chan_def conn_Close_def)

text \<open>
  Claim C7 fails on the code.  A second \<open>Close\<close> of a peer panics, for every peer: the
  channel \<open>done\<close> is closed again.  So it does after the read loop has closed the peer
  on a decoding error and \<open>Stop\<close> closes every registered peer.
\<close>

theorem Close_twice_panics:
  "fst (Peer_Close (snd (Peer_Close p))) = Panics CloseOfClosedChannel \<and>
   p_done (fst (snd (readLoop handler [Inl err] (NewPeer c) w))) \<and>
   fst (Transport_Stop
          \<lparr>t_nodeID = nid, t_address = addr,
           t_peers = [(remoteAddr c, fst (snd (readLoop handler [Inl err] (NewPeer c) w)))],
           t_listener_closed = False, t_done = False\<rparr>) = Panics CloseOfClosedChannel"
  by (simp add: Peer_Close_twice)
     (simp add: NewPeer_def Peer_Close_def close_chan_def conn_Close_def Transport_Stop_def)

theorem Broadcast_reaches_every_peer_witness:
  "fst (Transport_Broadcast
          \<lparr>t_nodeID = ''node1'', t_address = '':3000'',
           t_peers = [(''10.0.0.2:4000'', NewPeer \<lparr>remoteAddr = ''10.0.0.2:4000'', closed = True, writeData = []\<rparr>),
                      (''10.0.0.3:4000'', NewPeer \<lparr>remoteAddr = ''10.0.0.3:4000'', closed = False, writeData = []\<rparr>)],
           t_listener_closed = False, t_done = False\<rparr>
          \<lparr>Type = ''data'', SenderID = ''node1'', Payload = Raw JNull\<rparr>) = None \<and>
   (''10.0.0.3:4000'',
    NewPeer (\<lparr>remoteAddr = ''10.0.0.3:4000'', closed = False, writeData = []\<rparr>
               \<lparr>writeData := [\<lparr>Type = ''data'', SenderID = ''node1'', Payload = Raw JNull\<rparr>]\<rparr>))
     \<in> set (t_peers (snd (Transport_Broadcast
          \<lparr>t_nodeID = ''node1'', t_address = '':3000'',
           t_peers = [(''10.0.0.2:4000'', NewPeer \<lparr>remoteAddr = ''10.0.0.2:4000'', closed = True, writeData = []\<rparr>),
                      (''10.0.0.3:4000'', NewPeer \<lparr>remoteAddr = ''10.0.0.3:4000'', closed = False, writeData = []\<rparr>)],
           t_listener_closed = False, t_done = False\<rparr>
          \<lparr>Type = ''data'', SenderID = ''node1'', Payload = Raw JNull\<rparr>)))"
proof -
  let ?p = "NewPeer \<lparr>remoteAddr = ''10.0.0.3:4000'', closed = False, writeData = []\<rparr>"
  let ?t = "\<lparr>t_nodeID = ''node1'', t_address = '':3000'',
           t_peers = [(''10.0.0.2:4000'', NewPeer \<lparr>remoteAddr = ''10.0.0.2:4000'', closed = True, writeData = []\<rparr>),
                      (''10.0.0.3:4000'', ?p)],
           t_listener_closed = False, t_done = False\<rparr>"
  let ?m = "\<lparr>Type = ''data'', SenderID = ''node1'', Payload = Raw JNull\<rparr>"
  have reg: "(''10.0.0.3:4000'', ?p) \<in> set (t_peers ?t)"
    by simp
  have opn: "\<not> closed (conn ?p)" "Payload ?m \<noteq> NotJSON"
    by (simp_all add: NewPeer_def)
  have enc: "utf8_coerce ''data'' = ''data''" "utf8_coerce ''node1'' = ''node1''"
    by code_simp+
  have "(''10.0.0.3:4000'',
         ?p\<lparr>conn := (conn ?p)\<lparr>writeData := writeData (conn ?p) @
           [?m\<lparr>Type := utf8_coerce (Type ?m), SenderID := utf8_coerce (SenderID ?m)\<rparr>]\<rparr>\<rparr>)
        \<in> set (t_peers (snd (Transport_Broadcast ?t ?m)))"
    using Broadcast_reaches_every_peer [of ?t ?m] reg opn by blast
  moreover have "fst (Transport_Broadcast ?t ?m) = None"
    using Broadcast_reaches_every_peer [of ?t ?m] by blast
  ultimately show ?thesis
    by (simp add: NewPeer_def enc)
qed

section \<open>Proofs: package node\<close>




lemma coerce_data_transfer: "utf8_coerce MessageTypeDataTransfer = MessageTypeDataTransfer"
  unfolding MessageTypeDataTransfer_def by code_simp

lemma transferChunk_pos: "0 < transferChunk"
  by (simp add: transferChunk_def)

lemma send_chunks_exact_multiple:
  assumes "length data = k * transferChunk" and "\<not> closed (conn peer)"
  shows "send_chunks n request \<lparr>unread = data, faulty = False\<rparr> chunkIndex peer =
           (None, peer\<lparr>conn := (conn peer)\<lparr>writeData := writeData (conn peer) @
              map (full_chunk_msg n request data chunkIndex) [0..<k]\<rparr>\<rparr>)"
  using assms
proof (induction k arbitrary: data chunkIndex peer)
  case 0
  then show ?case
    by (subst send_chunks.simps) (simp add: Read_def)
next
  case (Suc k)
  let ?buf = "take transferChunk data"
  let ?rest = "drop transferChunk data"
  let ?msg = "\<lparr>Type = MessageTypeDataTransfer, SenderID = ID n,
      Payload = Raw (marshal_Transfer
        \<lparr>dt_ContentHash = rq_ContentHash request, dt_Data = Some ?buf,
         dt_ChunkIndex = chunkIndex, dt_FinalChunk = False, dt_IV = None,
         dt_FromWatch = rq_FromWatch request\<rparr>)\<rparr>"
  let ?peer' = "peer\<lparr>conn := (conn peer)\<lparr>writeData := writeData (conn peer) @
      [full_chunk_msg n request data chunkIndex 0]\<rparr>\<rparr>"
  have len: "length data = transferChunk + k * transferChunk"
    using Suc.prems(1) by simp
  then have ne: "data \<noteq> []"
    using transferChunk_pos by auto
  have lbuf: "length ?buf = transferChunk"
    using len by simp
  have rd: "Read \<lparr>unread = data, faulty = False\<rparr> transferChunk =
      (ReadBytes ?buf, \<lparr>unread = ?rest, faulty = False\<rparr>)"
    using ne by (simp add: Read_def)
  have nm: "NewMessage MessageTypeDataTransfer (ID n)
      (Transfer \<lparr>dt_ContentHash = rq_ContentHash request, dt_Data = Some ?buf,
         dt_ChunkIndex = chunkIndex, dt_FinalChunk = (length ?buf < transferChunk), dt_IV = None,
         dt_FromWatch = rq_FromWatch request\<rparr>) = Inr ?msg"
    by (simp add: NewMessage_def json_Marshal_def lbuf del: length_take)
  have sd: "Peer_Send peer ?msg = (None, ?peer')"
    using Suc.prems(2)
    by (simp add: Peer_Send_open full_chunk_msg_def coerce_data_transfer)
  have lrest: "length ?rest = k * transferChunk"
    using len by simp
  have IH: "send_chunks n request \<lparr>unread = ?rest, faulty = False\<rparr> (chunkIndex + 1) ?peer' =
      (None, ?peer'\<lparr>conn := (conn ?peer')\<lparr>writeData := writeData (conn ?peer') @
              map (full_chunk_msg n request ?rest (chunkIndex + 1)) [0..<k]\<rparr>\<rparr>)"
    using Suc.IH [OF lrest, of ?peer' "chunkIndex + 1"] Suc.prems(2) by simp
  have shift: "full_chunk_msg n request ?rest (chunkIndex + 1) i =
      full_chunk_msg n request data chunkIndex (Suc i)" for i
    by (simp add: full_chunk_msg_def add.assoc add.commute [of "i * transferChunk"])
  have "map (full_chunk_msg n request data chunkIndex) [0..<Suc k] =
      full_chunk_msg n request data chunkIndex 0 #
      map (full_chunk_msg n request ?rest (chunkIndex + 1)) [0..<k]"
    by (simp add: shift upt_conv_Cons map_Suc_upt [symmetric] del: upt_Suc)
  then show ?case
    by (subst send_chunks.simps) (simp add: rd nm sd IH del: upt_Suc length_take)
qed

lemma ParsePayload_full_chunk_msg:
  "ParsePayload_Transfer (full_chunk_msg n request data chunkIndex i) =
     Inr \<lparr>dt_ContentHash = utf8_coerce (rq_ContentHash request),
          dt_Data = Some (take transferChunk (drop (i * transferChunk) data)),
          dt_ChunkIndex = chunkIndex + of_nat i,
          dt_FinalChunk = False,
          dt_IV = None,
          dt_FromWatch = rq_FromWatch request\<rparr>"
  by (simp add: ParsePayload_Transfer_def full_chunk_msg_def unm_defs set_Transfer_def
      zero_Transfer_def)

text \<open>
  Claim C1 fails on the code.  When the stored object has exactly \<open>k\<close> times 1 MiB
  (\<open>k\<close> may be 0), \<open>handleDataRequest\<close> returns without an error after sending \<open>k\<close>
  records, with the chunk indices \<open>0, \<dots>, k - 1\<close> and each with \<open>FinalChunk = false\<close>:
  the read that finds the end of the file returns \<^verbatim>\<open>io.EOF\<close>, and the loop breaks without
  sending.  No record has \<open>FinalChunk = true\<close>.
\<close>

theorem handleDataRequest_exact_multiple:
  assumes "ParsePayload_Request msg = Inr request"
      and "Load (n_store n) (rq_ContentHash request) fs = Returns (Inr \<lparr>unread = data, faulty = False\<rparr>)"
      and "length data = k * transferChunk"
      and "\<not> closed (conn peer)"
  shows "fst (handleDataRequest n peer msg fs) = Returns None \<and>
         map ParsePayload_Transfer
           (drop (length (writeData (conn peer)))
              (writeData (conn (snd (handleDataRequest n peer msg fs))))) =
         map (\<lambda>i. Inr \<lparr>dt_ContentHash = utf8_coerce (rq_ContentHash request),
                        dt_Data = Some (take transferChunk (drop (i * transferChunk) data)),
                        dt_ChunkIndex = of_nat i,
                        dt_FinalChunk = False,
                        dt_IV = None,
                        dt_FromWatch = rq_FromWatch request\<rparr>) [0..<k]"
proof -
  have "handleDataRequest n peer msg fs =
      (Returns None, peer\<lparr>conn := (conn peer)\<lparr>writeData := writeData (conn peer) @
              map (full_chunk_msg n request data 0) [0..<k]\<rparr>\<rparr>)"
    by (simp add: handleDataRequest_def assms(1,2) send_chunks_exact_multiple [OF assms(3,4)])
  then show ?thesis
    by (simp add: ParsePayload_full_chunk_msg comp_def)
qed

theorem handleDataRequest_exact_multiple_witness:
  "ParsePayload_Request
     \<lparr>Type = ''data_request'', SenderID = ''node2'',
      Payload = Raw (JObject [(''content_hash'', JString ''abcdef''), (''from_watch'', JBool True)])\<rparr> =
     Inr \<lparr>rq_ContentHash = ''abcdef'', rq_FromWatch = True\<rparr> \<and>
   Load \<lparr>baseDir = [''store''], tempDir = [''store'', ''temp'']\<rparr> ''abcdef''
     (fmupd [''store'', ''ab'', ''cd'', ''ef''] (File (replicate transferChunk 7)) fmempty) =
     Returns (Inr \<lparr>unread = replicate transferChunk 7, faulty = False\<rparr>) \<and>
   length (replicate transferChunk (7 :: byte)) = 1 * transferChunk \<and>
   map ParsePayload_Transfer
     (writeData (conn (snd (handleDataRequest
        \<lparr>ID = ''node1'', n_address = '':3000'',
         n_store = \<lparr>baseDir = [''store''], tempDir = [''store'', ''temp'']\<rparr>,
         networkKey = None, isFirstNode = True, n_peers = [], transfers = Map.empty,
         keyReady = True\<rparr>
        (NewPeer \<lparr>remoteAddr = ''10.0.0.2:4000'', closed = False, writeData = []\<rparr>)
        \<lparr>Type = ''data_request'', SenderID = ''node2'',
         Payload = Raw (JObject [(''content_hash'', JString ''abcdef''), (''from_watch'', JBool True)])\<rparr>
        (fmupd [''store'', ''ab'', ''cd'', ''ef''] (File (replicate transferChunk 7)) fmempty))))) =
     [Inr \<lparr>dt_ContentHash = ''abcdef'', dt_Data = Some (replicate transferChunk 7),
           dt_ChunkIndex = 0, dt_FinalChunk = False, dt_IV = None, dt_FromWatch = True\<rparr>]"
proof -
  let ?msg = "\<lparr>Type = ''data_request'', SenderID = ''node2'',
      Payload = Raw (JObject [(''content_hash'', JString ''abcdef''), (''from_watch'', JBool True)])\<rparr>"
  let ?req = "\<lparr>rq_ContentHash = ''abcdef'', rq_FromWatch = True\<rparr>"
  let ?s = "\<lparr>baseDir = [''store''], tempDir = [''store'', ''temp'']\<rparr>"
  let ?n = "\<lparr>ID = ''node1'', n_address = '':3000'', n_store = ?s,
         networkKey = None, isFirstNode = True, n_peers = [], transfers = Map.empty,
         keyReady = True\<rparr>"
  let ?fs = "fmupd [''store'', ''ab'', ''cd'', ''ef''] (File (replicate transferChunk 7)) fmempty"
  let ?peer = "NewPeer \<lparr>remoteAddr = ''10.0.0.2:4000'', closed = False, writeData = []\<rparr>"
  have pp: "ParsePayload_Request ?msg = Inr ?req"
    by code_simp
  have hp: "hashToPath ?s ''abcdef'' = Returns [''store'', ''ab'', ''cd'', ''ef'']"
    by code_simp
  have ld: "Load ?s ''abcdef'' ?fs = Returns (Inr \<lparr>unread = replicate transferChunk 7, faulty = False\<rparr>)"
    by (simp add: Load_def hp os_Open_def os_Stat_def entry_at_def)
  have ld': "Load (n_store ?n) (rq_ContentHash ?req) ?fs =
      Returns (Inr \<lparr>unread = replicate transferChunk 7, faulty = False\<rparr>)"
    using ld by simp
  have ln: "length (replicate transferChunk (7 :: byte)) = 1 * transferChunk"
    by simp
  have op: "\<not> closed (conn ?peer)"
    by (simp add: NewPeer_def)
  have cz: "utf8_coerce ''abcdef'' = ''abcdef''"
    by code_simp
  from handleDataRequest_exact_multiple [OF pp ld' ln op] pp ld ln show ?thesis
    by (simp add: NewPeer_def cz)
qed

lemma entry_at_File: "entry_at fs t = Some (File b) \<Longrightarrow> t \<noteq> [] \<and> fmlookup fs t = Some (File b)"
  by (auto simp: entry_at_def split: if_splits)

lemma os_Remove_other:
  "t \<noteq> p \<Longrightarrow> fmlookup (snd (os_Remove fs p)) t = fmlookup fs t"
  by (auto simp: os_Remove_def split: option.splits entry.splits)

lemma os_Remove_File:
  "entry_at fs t = Some (File b) \<Longrightarrow> os_Remove fs t = (None, fmdrop t fs)"
  by (simp add: os_Remove_def)

lemma Store_keeps_file:
  assumes "entry_at fs t = Some (File b)"
  shows "\<exists>b'. entry_at (snd (Store s h r rnd fs)) t = Some (File b')"
proof -
  define ts where "ts = tempDir s @ [''store-'' @ rnd]"
  have t: "t \<noteq> []" "fmlookup fs t = Some (File b)"
    using entry_at_File [OF assms] by simp_all
  show ?thesis
  proof (cases "os_CreateTemp fs (tempDir s) ''store-'' rnd")
    case (Pair res fs1)
    show ?thesis
    proof (cases res)
      case (Inl e)
      then have "fs1 = fs"
        using Pair by (auto simp: os_CreateTemp_def split: if_splits)
      then show ?thesis
        using Pair Inl assms by (simp add: Store_def)
    next
      case (Inr tp)
      then have tp: "tp = ts" "fs1 = fmupd ts (File []) fs" "fmlookup fs ts = None"
        using Pair
        by (auto simp: os_CreateTemp_def ts_def os_Stat_def entry_at_def
            split: if_splits option.splits)
      then have ne: "t \<noteq> ts"
        using t by auto
      define fs2 where "fs2 = fmupd ts (File (unread r)) fs"
      have cp: "io_Copy fs1 ts r = (if faulty r then Some ErrIO else None, fs2)"
        by (simp add: io_Copy_def tp entry_at_def ts_def fs2_def)
      have f2: "fmlookup fs2 t = Some (File b)"
        using ne t by (simp add: fs2_def)
      have keep: "\<exists>b'. entry_at (snd (os_Remove fsx ts)) t = Some (File b')"
        if "fmlookup fsx t = Some (File b'')" for fsx b''
        using that ne t(1) by (simp add: entry_at_def os_Remove_other)
      show ?thesis
      proof (cases "faulty r")
        case True
        then show ?thesis
          using Pair Inr tp cp keep [OF f2] by (simp add: Store_def)
      next
        case False
        show ?thesis
        proof (cases "hashToPath s h")
          case (Panics pn)
          then show ?thesis
            using Pair Inr tp cp False keep [OF f2] by (simp add: Store_def)
        next
          case (Returns hp)
          obtain e3 fs3 where mk: "os_MkdirAll fs2 (filepath_Dir hp) = (e3, fs3)"
            by (cases "os_MkdirAll fs2 (filepath_Dir hp)")
          have f3: "fmlookup fs3 t = Some (File b)"
            using os_MkdirAll_lookup [OF f2, of "filepath_Dir hp"] mk by simp
          show ?thesis
          proof (cases e3)
            case (Some e)
            then show ?thesis
              using Pair Inr tp cp False Returns mk keep [OF f3] by (simp add: Store_def)
          next
            case None
            obtain e4 fs4 where rn: "os_Rename fs3 ts hp = (e4, fs4)"
              by (cases "os_Rename fs3 ts hp")
            have "\<exists>b'. fmlookup fs4 t = Some (File b')"
              using rn f3 ne
              by (auto simp: os_Rename_def split: option.splits entry.splits if_splits)
            then obtain b' where f4: "fmlookup fs4 t = Some (File b')" ..
            show ?thesis
              using Pair Inr tp cp False Returns mk None rn keep [OF f4]
              by (cases e4) (simp_all add: Store_def)
          qed
        qed
      qed
    qed
  qed
qed

lemma finalizeWatchTransfer_cleans:
  assumes st: "transfers n key = Some state"
      and tf: "entry_at fs (tempFile state) = Some (File content)"
  shows "transfers (fst (snd (finalizeWatchTransfer sha n key expected rnd fs))) key = None \<and>
         fmlookup (snd (snd (finalizeWatchTransfer sha n key expected rnd fs))) (tempFile state) = None \<and>
         (ContentHash sha (file_reader fs (tempFile state)) \<noteq> Inr expected \<longrightarrow>
            finalizeWatchTransfer sha n key expected rnd fs =
              (Returns (Some (Errorf ''content hash mismatch'')),
               n\<lparr>transfers := (transfers n)(key := None)\<rparr>, fmdrop (tempFile state) fs))"
proof -
  let ?t = "tempFile state"
  let ?n1 = "n\<lparr>transfers := (transfers n)(key := None)\<rparr>"
  let ?hash = "hex_EncodeToString (digest_bytes (sha content))"
  have sk: "os_Seek0 fs ?t = None"
    using tf by (simp add: os_Seek0_def)
  have rd: "file_reader fs ?t = \<lparr>unread = content, faulty = False\<rparr>"
    using tf by (simp add: file_reader_def)
  have ch: "ContentHash sha (file_reader fs ?t) = Inr ?hash"
    by (simp add: rd ContentHash_def)
  have cl: "snd (os_Remove fs ?t) = fmdrop ?t fs"
    using os_Remove_File [OF tf] by simp
  show ?thesis
  proof (cases "?hash = expected")
    case False
    then have "finalizeWatchTransfer sha n key expected rnd fs =
        (Returns (Some (Errorf ''content hash mismatch'')), ?n1, fmdrop ?t fs)"
      by (simp add: finalizeWatchTransfer_def st sk ch cl Let_def)
    then show ?thesis by simp
  next
    case True
    obtain r1 fs1 where sr: "Store (n_store ?n1) expected (file_reader fs ?t) rnd fs = (r1, fs1)"
      by (cases "Store (n_store ?n1) expected (file_reader fs ?t) rnd fs")
    obtain b' where "entry_at fs1 ?t = Some (File b')"
      using Store_keeps_file [OF tf, of "n_store ?n1" expected "file_reader fs ?t" rnd] sr by auto
    then have cl1: "snd (os_Remove fs1 ?t) = fmdrop ?t fs1"
      using os_Remove_File by simp
    have "\<exists>r. finalizeWatchTransfer sha n key expected rnd fs = (r, ?n1, fmdrop ?t fs1)"
      using True sr cl1
      by (cases r1; cases "case r1 of Returns x \<Rightarrow> x | _ \<Rightarrow> None")
         (auto simp: finalizeWatchTransfer_def st sk ch Let_def split: outcome.splits option.splits)
    then show ?thesis
      using True ch by auto
  qed
qed

lemma os_WriteAt_ok:
  "os_WriteAt fs p bs off = (None, fs') \<Longrightarrow>
   \<exists>old. entry_at fs p = Some (File old) \<and> fs' = fmupd p (File (write_at old (nat (sint off)) bs)) fs"
  by (auto simp: os_WriteAt_def split: option.splits entry.splits if_splits)

text \<open>
  Claim C4.  A \<open>data_transfer\<close> with \<open>FinalChunk\<close> whose chunk has been written to the
  temp file of a transfer of watch origin is finalized by \<open>finalizeWatchTransfer\<close>: on
  every way out the state of the transfer is gone and the temp file is removed; and when
  the hash of the temp file is not the announced \<open>ContentHash\<close>, the handler returns the
  hash-mismatch error and the file system is the one after the write with only the
  temp file removed, so nothing is put into the store.
\<close>

theorem handleDataTransfer_final_watch:
  assumes "ParsePayload_Transfer msg = Inr transfer"
      and "dt_FinalChunk transfer"
      and "transfer_state n (transferKey_of peer transfer) transfer rnd fs = (Inr (state, n1), fs1)"
      and "fromWatch state"
      and "os_WriteAt fs1 (tempFile state) (case dt_Data transfer of None \<Rightarrow> [] | Some bs \<Rightarrow> bs)
             (dt_ChunkIndex transfer * 1024 * 1024) = (None, fs2)"
  shows "transfers (fst (snd (handleDataTransfer sha E n peer msg rnd rnd' fs)))
           (transferKey_of peer transfer) = None \<and>
         fmlookup (snd (snd (handleDataTransfer sha E n peer msg rnd rnd' fs))) (tempFile state) = None \<and>
         (ContentHash sha (file_reader fs2 (tempFile state)) \<noteq> Inr (dt_ContentHash transfer) \<longrightarrow>
            handleDataTransfer sha E n peer msg rnd rnd' fs =
              (Returns (Some (Wrap ''failed to finalize watch transfer''
                                (Errorf ''content hash mismatch''))),
               n1\<lparr>transfers := (transfers n1)(transferKey_of peer transfer := None)\<rparr>,
               fmdrop (tempFile state) fs2))"
proof -
  let ?key = "transferKey_of peer transfer"
  let ?state' = "state\<lparr>chunks := List.insert (dt_ChunkIndex transfer) (chunks state),
                        received := received state + 1\<rparr>"
  let ?n2 = "n1\<lparr>transfers := (transfers n1)(?key \<mapsto> ?state')\<rparr>"
  let ?fin = "finalizeWatchTransfer sha ?n2 ?key (dt_ContentHash transfer) rnd' fs2"
  obtain old where "entry_at fs1 (tempFile state) = Some (File old)"
      and fs2: "fs2 = fmupd (tempFile state) (File (write_at old (nat (sint (dt_ChunkIndex transfer * 1024 * 1024)))
                  (case dt_Data transfer of None \<Rightarrow> [] | Some bs \<Rightarrow> bs))) fs1"
    using os_WriteAt_ok [OF assms(5)] by blast
  then have tf: "entry_at fs2 (tempFile ?state') =
      Some (File (write_at old (nat (sint (dt_ChunkIndex transfer * 1024 * 1024)))
                  (case dt_Data transfer of None \<Rightarrow> [] | Some bs \<Rightarrow> bs)))"
    by (auto simp: entry_at_def split: if_splits)
  have st: "transfers ?n2 ?key = Some ?state'"
    by simp
  note fin = finalizeWatchTransfer_cleans [OF st tf, of sha "dt_ContentHash transfer" rnd']
  have hd: "handleDataTransfer sha E n peer msg rnd rnd' fs =
      (case ?fin of
         (Returns (Some e), n3, fs3) \<Rightarrow>
           (Returns (Some (Wrap ''failed to finalize watch transfer'' e)), n3, fs3)
       | other \<Rightarrow> other)"
    using assms by (simp add: handleDataTransfer_def Let_def)
  have same: "fst (snd (handleDataTransfer sha E n peer msg rnd rnd' fs)) = fst (snd ?fin)"
      "snd (snd (handleDataTransfer sha E n peer msg rnd rnd' fs)) = snd (snd ?fin)"
    unfolding hd by (auto split: prod.splits outcome.splits option.splits)
  have n2: "?n2\<lparr>transfers := (transfers ?n2)(?key := None)\<rparr> =
      n1\<lparr>transfers := (transfers n1)(?key := None)\<rparr>"
    by simp
  show ?thesis
    using fin unfolding same by (auto simp: hd n2)
qed

theorem handleDataTransfer_final_watch_witness:
  "ParsePayload_Transfer
     \<lparr>Type = ''data_transfer'', SenderID = ''node1'',
      Payload = Raw (JObject [(''content_hash'', JString ''abcdef''), (''data'', JString ''AQID''),
                              (''chunk_index'', JInt 0), (''final_chunk'', JBool True),
                              (''from_watch'', JBool True)])\<rparr> =
     Inr \<lparr>dt_ContentHash = ''abcdef'', dt_Data = Some [1, 2, 3], dt_ChunkIndex = 0,
          dt_FinalChunk = True, dt_IV = None, dt_FromWatch = True\<rparr> \<and>
   ContentHash (\<lambda>bs. 0) \<lparr>unread = [1, 2, 3], faulty = False\<rparr> \<noteq> Inr ''abcdef'' \<and>
   fst (handleDataTransfer (\<lambda>bs. 0) (\<lambda>k b. b)
          \<lparr>ID = ''node2'', n_address = '':3001'',
           n_store = \<lparr>baseDir = [''store''], tempDir = [''store'', ''temp'']\<rparr>,
           networkKey = Some [9, 9, 9], isFirstNode = False, n_peers = [],
           transfers = Map.empty, keyReady = True\<rparr>
          (NewPeer \<lparr>remoteAddr = ''10.0.0.1:3000'', closed = False, writeData = []\<rparr>)
          \<lparr>Type = ''data_transfer'', SenderID = ''node1'',
           Payload = Raw (JObject [(''content_hash'', JString ''abcdef''), (''data'', JString ''AQID''),
                                   (''chunk_index'', JInt 0), (''final_chunk'', JBool True),
                                   (''from_watch'', JBool True)])\<rparr>
          ''7'' ''8''
          (fmupd [''store'', ''temp''] Directory (fmupd [''store''] Directory fmempty))) =
     Returns (Some (Wrap ''failed to finalize watch transfer'' (Errorf ''content hash mismatch''))) \<and>
   snd (snd (handleDataTransfer (\<lambda>bs. 0) (\<lambda>k b. b)
          \<lparr>ID = ''node2'', n_address = '':3001'',
           n_store = \<lparr>baseDir = [''store''], tempDir = [''store'', ''temp'']\<rparr>,
           networkKey = Some [9, 9, 9], isFirstNode = False, n_peers = [],
           transfers = Map.empty, keyReady = True\<rparr>
          (NewPeer \<lparr>remoteAddr = ''10.0.0.1:3000'', closed = False, writeData = []\<rparr>)
          \<lparr>Type = ''data_transfer'', SenderID = ''node1'',
           Payload = Raw (JObject [(''content_hash'', JString ''abcdef''), (''data'', JString ''AQID''),
                                   (''chunk_index'', JInt 0), (''final_chunk'', JBool True),
                                   (''from_watch'', JBool True)])\<rparr>
          ''7'' ''8''
          (fmupd [''store'', ''temp''] Directory (fmupd [''store''] Directory fmempty)))) =
     fmupd [''store'', ''temp''] Directory (fmupd [''store''] Directory fmempty)"
proof -
  let ?msg = "\<lparr>Type = ''data_transfer'', SenderID = ''node1'',
      Payload = Raw (JObject [(''content_hash'', JString ''abcdef''), (''data'', JString ''AQID''),
                              (''chunk_index'', JInt 0), (''final_chunk'', JBool True),
                              (''from_watch'', JBool True)])\<rparr>"
  let ?tr = "\<lparr>dt_ContentHash = ''abcdef'', dt_Data = Some [1, 2, 3], dt_ChunkIndex = 0,
          dt_FinalChunk = True, dt_IV = None, dt_FromWatch = True\<rparr>"
  let ?n = "\<lparr>ID = ''node2'', n_address = '':3001'',
           n_store = \<lparr>baseDir = [''store''], tempDir = [''store'', ''temp'']\<rparr>,
           networkKey = Some [9, 9, 9], isFirstNode = False, n_peers = [],
           transfers = Map.empty, keyReady = True\<rparr>"
  let ?peer = "NewPeer \<lparr>remoteAddr = ''10.0.0.1:3000'', closed = False, writeData = []\<rparr>"
  let ?fs = "fmupd [''store'', ''temp''] Directory (fmupd [''store''] Directory fmempty)"
  let ?t = "[''store'', ''temp'', ''transfer-7'']"
  let ?st = "\<lparr>tempFile = ?t, chunks = [], received = 0, fromWatch = True\<rparr>"
  let ?key = "transferKey_of ?peer ?tr"
  let ?n1 = "?n\<lparr>transfers := (transfers ?n)(?key \<mapsto> ?st)\<rparr>"
  let ?fs1 = "fmupd ?t (File []) ?fs"
  let ?fs2 = "fmupd ?t (File [1, 2, 3]) ?fs1"
  have pp: "ParsePayload_Transfer ?msg = Inr ?tr"
    by code_simp
  have fc: "dt_FinalChunk ?tr"
    by simp
  have ts: "transfer_state ?n ?key ?tr ''7'' ?fs = (Inr (?st, ?n1), ?fs1)"
    by (simp add: transfer_state_def CreateTemp_def os_CreateTemp_def is_dir_def os_Stat_def
        entry_at_def Let_def)
  have fw: "fromWatch ?st"
    by simp
  have wr: "os_WriteAt ?fs1 (tempFile ?st) (case dt_Data ?tr of None \<Rightarrow> [] | Some bs \<Rightarrow> bs)
      (dt_ChunkIndex ?tr * 1024 * 1024) = (None, ?fs2)"
    by (simp add: os_WriteAt_def entry_at_def write_at_def)
  have ne: "ContentHash (\<lambda>bs. 0) \<lparr>unread = [1, 2, 3], faulty = False\<rparr> \<noteq> Inr ''abcdef''"
    by code_simp
  have rd: "file_reader ?fs2 (tempFile ?st) = \<lparr>unread = [1, 2, 3], faulty = False\<rparr>"
    by (simp add: file_reader_def entry_at_def)
  have ne': "ContentHash (\<lambda>bs. 0) (file_reader ?fs2 (tempFile ?st)) \<noteq> Inr (dt_ContentHash ?tr)"
    using ne unfolding rd by simp
  have drop: "fmdrop (tempFile ?st) ?fs2 = ?fs"
    by (simp add: fmdrop_fmupd_same fmdrop_fmupd fmdrop_idle')
  from handleDataTransfer_final_watch [OF pp fc ts fw wr, of "\<lambda>bs. 0" "\<lambda>k b. b" "''8''"] ne'
  have "handleDataTransfer (\<lambda>bs. 0) (\<lambda>k b. b) ?n ?peer ?msg ''7'' ''8'' ?fs =
      (Returns (Some (Wrap ''failed to finalize watch transfer'' (Errorf ''content hash mismatch''))),
       ?n1\<lparr>transfers := (transfers ?n1)(?key := None)\<rparr>, fmdrop (tempFile ?st) ?fs2)"
    by blast
  then show ?thesis
    using pp ne drop by simp
qed

end
